theory Spec2Isabelle
  imports Complex_Main
begin

section \<open>Errors and results\<close>

text \<open>
  Every \<^verbatim>\<open>raise\<close> of the Python source is a value of this type. The fields of an
  error are the values that the source interpolates into its message.
\<close>

datatype axis = Z_axis | Y_axis | X_axis

datatype error =
    NegativeIndices string "real \<times> real \<times> real" "real \<times> real \<times> real" nat
  | NonZeroOrigin axis string int
  | EmptySequence
  | NotANumber
  | Overflow
  | KeyError string
  | IndexError
  | ZeroDivisionError
  | NotTwoDimensional
  | BroadcastError
  | ShapeMismatch "nat list" "nat list"
  | MissingArguments
  | MissingLabelColumn
  | LabelNotFound
  | NotFourDimensional "nat list"
  | AttributeError
  | InvalidReference

section \<open>Rounding\<close>

text \<open>
  Python's \<^verbatim>\<open>round(v)\<close> on a float: the nearest integer, a tie going to the even one.
  Table entries and pixel sizes are floats in the source; they are modelled as
  real numbers, so the arithmetic is exact.
\<close>

definition py_round :: "real \<Rightarrow> int" where
  "py_round v =
     (let f = \<lfloor>v\<rfloor>; d = v - of_int f
      in if d < 1 / 2 then f
         else if 1 / 2 < d then f + 1
         else if even f then f else f + 1)"

text \<open>
  \<^verbatim>\<open>round(v / pxl_size)\<close>. A numpy division by zero does not raise: it gives nan for
  \<open>0 / 0\<close> and an infinity otherwise, and \<^verbatim>\<open>round\<close> raises on both.
\<close>

definition round_div :: "real \<Rightarrow> real \<Rightarrow> error + int" where
  "round_div v pxl_size =
     (if pxl_size = 0 then (if v = 0 then Inl NotANumber else Inl Overflow)
      else Inr (py_round (v / pxl_size)))"

text \<open>\<^verbatim>\<open>list(map(round, indices))\<close>: the first element that fails decides.\<close>

fun sequence :: "(error + 'a) list \<Rightarrow> error + 'a list" where
  "sequence [] = Inr []"
| "sequence (Inl e # rs) = Inl e"
| "sequence (Inr v # rs) = (case sequence rs of Inl e \<Rightarrow> Inl e | Inr vs \<Rightarrow> Inr (v # vs))"

text \<open>Python's \<^verbatim>\<open>min\<close> of a sequence; it raises on an empty one.\<close>

fun py_min :: "'a::linorder list \<Rightarrow> error + 'a" where
  "py_min [] = Inl EmptySequence"
| "py_min (v # vs) = Inr (fold min vs v)"

fun py_max :: "'a::linorder list \<Rightarrow> error + 'a" where
  "py_max [] = Inl EmptySequence"
| "py_max (v # vs) = Inr (fold max vs v)"

section \<open>ROI tables\<close>

text \<open>
  A ROI table is an AnnData object: named rows (\<^verbatim>\<open>obs_names\<close>) over the six
  positional columns; further columns are the extension of the record.
  \<^verbatim>\<open>ROI[name, col].X[0, 0]\<close> reads the first row of that name, and an assignment to
  \<^verbatim>\<open>ROI[name, col]\<close> writes every row of that name; row names are meant to be unique.
\<close>

record roi_row =
  x_micrometer :: real
  y_micrometer :: real
  z_micrometer :: real
  len_x_micrometer :: real
  len_y_micrometer :: real
  len_z_micrometer :: real

type_synonym 'a roi_table = "(string \<times> 'a roi_row_scheme) list"

definition obs_names :: "'a roi_table \<Rightarrow> string list" where
  "obs_names ROI = map fst ROI"

definition table_get :: "'a roi_table \<Rightarrow> string \<Rightarrow> ('a roi_row_scheme \<Rightarrow> real) \<Rightarrow> error + real" where
  "table_get ROI name col =
     (case map_of ROI name of None \<Rightarrow> Inl (KeyError name) | Some r \<Rightarrow> Inr (col r))"

definition table_set ::
  "'a roi_table \<Rightarrow> string \<Rightarrow> ('a roi_row_scheme \<Rightarrow> 'a roi_row_scheme) \<Rightarrow> 'a roi_table" where
  "table_set ROI name upd = map (\<lambda>(n, r). if n = name then (n, upd r) else (n, r)) ROI"

section \<open>Physical units to pixel indices\<close>

text \<open>The body of the loop of \<^verbatim>\<open>convert_ROI_table_to_indices\<close> for one row name.\<close>

definition convert_ROI ::
  "'a roi_table \<Rightarrow> real \<Rightarrow> real \<Rightarrow> real \<Rightarrow> nat \<Rightarrow> string \<Rightarrow> error + int list" where
  "convert_ROI ROI pxl_size_z pxl_size_y pxl_size_x level ROI_name =
     (case map_of ROI ROI_name of
        None \<Rightarrow> Inl (KeyError ROI_name)
      | Some r \<Rightarrow>
          (let start_x = round_div (x_micrometer r) pxl_size_x;
               end_x = round_div (x_micrometer r + len_x_micrometer r) pxl_size_x;
               start_y = round_div (y_micrometer r) pxl_size_y;
               end_y = round_div (y_micrometer r + len_y_micrometer r) pxl_size_y;
               start_z = round_div (z_micrometer r) pxl_size_z;
               end_z = round_div (z_micrometer r + len_z_micrometer r) pxl_size_z
           in case sequence [start_z, end_z, start_y, end_y, start_x, end_x] of
                Inl e \<Rightarrow> Inl e
              | Inr indices \<Rightarrow>
                  (case py_min indices of
                     Inl e \<Rightarrow> Inl e
                   | Inr m \<Rightarrow>
                       if m < 0
                       then Inl (NegativeIndices ROI_name
                              (z_micrometer r, y_micrometer r, x_micrometer r)
                              (pxl_size_z, pxl_size_y, pxl_size_x) level)
                       else Inr indices)))"

fun convert_loop ::
  "'a roi_table \<Rightarrow> real \<Rightarrow> real \<Rightarrow> real \<Rightarrow> nat \<Rightarrow> string list \<Rightarrow> int list list
     \<Rightarrow> error + int list list" where
  "convert_loop ROI pz py px level [] list_indices = Inr list_indices"
| "convert_loop ROI pz py px level (ROI_name # names) list_indices =
     (case convert_ROI ROI pz py px level ROI_name of
        Inl e \<Rightarrow> Inl e
      | Inr indices \<Rightarrow> convert_loop ROI pz py px level names (list_indices @ [indices]))"

definition convert_ROI_table_to_indices ::
  "'a roi_table \<Rightarrow> real \<times> real \<times> real \<Rightarrow> nat \<Rightarrow> int \<Rightarrow> error + int list list" where
  "convert_ROI_table_to_indices ROI full_res_pxl_sizes_zyx level coarsening_xy =
     (if length ROI = 0 then Inr []
      else
        (case full_res_pxl_sizes_zyx of (pxl_size_z, pxl_size_y, pxl_size_x) \<Rightarrow>
           (let prefactor = of_int (coarsening_xy ^ level);
                pxl_size_x = pxl_size_x * prefactor;
                pxl_size_y = pxl_size_y * prefactor
            in convert_loop ROI pxl_size_z pxl_size_y pxl_size_x level (obs_names ROI) [])))"


text \<open>
  The index range that the specification gives for one row: each of the six
  quotients rounded, in the order \<open>[start_z, end_z, start_y, end_y, start_x, end_x]\<close>.
\<close>

definition spec_indices :: "'a roi_row_scheme \<Rightarrow> real \<Rightarrow> real \<Rightarrow> real \<Rightarrow> int list" where
  "spec_indices r pz py px =
     [py_round (z_micrometer r / pz), py_round ((z_micrometer r + len_z_micrometer r) / pz),
      py_round (y_micrometer r / py), py_round ((y_micrometer r + len_y_micrometer r) / py),
      py_round (x_micrometer r / px), py_round ((x_micrometer r + len_x_micrometer r) / px)]"

definition has_negative :: "int list \<Rightarrow> bool" where
  "has_negative indices = (\<exists>i \<in> set indices. i < 0)"

text \<open>A row whose position and extent are non-negative on every axis.\<close>

definition nonneg_row :: "'a roi_row_scheme \<Rightarrow> bool" where
  "nonneg_row r \<longleftrightarrow>
     0 \<le> x_micrometer r \<and> 0 \<le> y_micrometer r \<and> 0 \<le> z_micrometer r \<and>
     0 \<le> len_x_micrometer r \<and> 0 \<le> len_y_micrometer r \<and> 0 \<le> len_z_micrometer r"

section \<open>Zero-origin check\<close>

text \<open>\<^verbatim>\<open>item[k]\<close> for a non-negative \<open>k\<close>.\<close>

definition py_item :: "'a list \<Rightarrow> nat \<Rightarrow> error + 'a" where
  "py_item xs k = (if k < length xs then Inr (xs ! k) else Inl IndexError)"

text \<open>\<^verbatim>\<open>min(item[k] for item in list_indices)\<close>.\<close>

definition min_start :: "int list list \<Rightarrow> nat \<Rightarrow> error + int" where
  "min_start list_indices k =
     (case sequence (map (\<lambda>item. py_item item k) list_indices) of
        Inl e \<Rightarrow> Inl e
      | Inr starts \<Rightarrow> py_min starts)"

text \<open>The loop over \<^verbatim>\<open>enumerate((min_start_z, min_start_y, min_start_x))\<close>.\<close>

fun check_zero :: "string \<Rightarrow> (axis \<times> int) list \<Rightarrow> error + unit" where
  "check_zero ROI_table_name [] = Inr ()"
| "check_zero ROI_table_name ((axis, min_index) # rest) =
     (if min_index \<noteq> 0 then Inl (NonZeroOrigin axis ROI_table_name min_index)
      else check_zero ROI_table_name rest)"

definition check_valid_ROI_indices :: "int list list \<Rightarrow> string \<Rightarrow> error + unit" where
  "check_valid_ROI_indices list_indices ROI_table_name =
     (if ROI_table_name \<notin> set [''FOV_ROI_table'', ''well_ROI_table''] then Inr ()
      else
        (case min_start list_indices 0 of
           Inl e \<Rightarrow> Inl e
         | Inr min_start_z \<Rightarrow>
        (case min_start list_indices 2 of
           Inl e \<Rightarrow> Inl e
         | Inr min_start_y \<Rightarrow>
        (case min_start list_indices 4 of
           Inl e \<Rightarrow> Inl e
         | Inr min_start_x \<Rightarrow>
             check_zero ROI_table_name
               [(Z_axis, min_start_z), (Y_axis, min_start_y), (X_axis, min_start_x)]))))"

section \<open>Origin normalization\<close>

text \<open>
  The body of the loop of \<^verbatim>\<open>reset_origin\<close> for one row name: three reads, each
  followed by the assignment of the shifted value.
\<close>

definition reset_origin_step ::
  "'a roi_table \<Rightarrow> real \<Rightarrow> real \<Rightarrow> real \<Rightarrow> string \<Rightarrow> error + 'a roi_table" where
  "reset_origin_step new_table origin_x origin_y origin_z FOV =
     (case table_get new_table FOV x_micrometer of
        Inl e \<Rightarrow> Inl e
      | Inr vx \<Rightarrow>
          (let t1 = table_set new_table FOV (x_micrometer_update (\<lambda>_. vx - origin_x))
           in case table_get t1 FOV y_micrometer of
                Inl e \<Rightarrow> Inl e
              | Inr vy \<Rightarrow>
                  (let t2 = table_set t1 FOV (y_micrometer_update (\<lambda>_. vy - origin_y))
                   in case table_get t2 FOV z_micrometer of
                        Inl e \<Rightarrow> Inl e
                      | Inr vz \<Rightarrow>
                          Inr (table_set t2 FOV
                                 (z_micrometer_update (\<lambda>_. vz - origin_z))))))"

fun reset_origin_loop ::
  "'a roi_table \<Rightarrow> real \<Rightarrow> real \<Rightarrow> real \<Rightarrow> string list \<Rightarrow> error + 'a roi_table" where
  "reset_origin_loop new_table origin_x origin_y origin_z [] = Inr new_table"
| "reset_origin_loop new_table origin_x origin_y origin_z (FOV # names) =
     (case reset_origin_step new_table origin_x origin_y origin_z FOV of
        Inl e \<Rightarrow> Inl e
      | Inr t \<Rightarrow> reset_origin_loop t origin_x origin_y origin_z names)"

text \<open>
  \<^verbatim>\<open>reset_origin\<close> works on a copy of its argument; the argument is a value here, so
  the copy is the argument itself. \<^verbatim>\<open>min\<close> of a column raises on a table without rows.
\<close>

definition reset_origin :: "'a roi_table \<Rightarrow> error + 'a roi_table" where
  "reset_origin ROI_table =
     (let new_table = ROI_table
      in case py_min (map (\<lambda>(n, r). x_micrometer r) new_table) of
           Inl e \<Rightarrow> Inl e
         | Inr origin_x \<Rightarrow>
        (case py_min (map (\<lambda>(n, r). y_micrometer r) new_table) of
           Inl e \<Rightarrow> Inl e
         | Inr origin_y \<Rightarrow>
        (case py_min (map (\<lambda>(n, r). z_micrometer r) new_table) of
           Inl e \<Rightarrow> Inl e
         | Inr origin_z \<Rightarrow>
             reset_origin_loop new_table origin_x origin_y origin_z (obs_names new_table))))"

text \<open>
  One row of the dataframe that \<^verbatim>\<open>prepare_FOV_ROI_table\<close> and
  \<^verbatim>\<open>prepare_well_ROI_table\<close> receive. Its position columns carry the names of the
  table columns in the source; here they are prefixed, the names being taken by the
  fields of \<open>roi_row\<close>. The columns that only go to \<^verbatim>\<open>obs\<close> (such as the time) do not
  enter the matrix of the table and are left out.
\<close>

record fov_metadata =
  df_x_micrometer :: real
  df_y_micrometer :: real
  df_z_micrometer :: real
  x_pixel :: int
  y_pixel :: int
  z_pixel :: int
  pixel_size_x :: real
  pixel_size_y :: real
  pixel_size_z :: real
  df_x_micrometer_original :: real
  df_y_micrometer_original :: real

record fov_row = roi_row +
  x_micrometer_original :: real
  y_micrometer_original :: real

definition prepare_FOV_ROI_table ::
  "(string \<times> fov_metadata) list \<Rightarrow> error + (string \<times> fov_row) list" where
  "prepare_FOV_ROI_table df =
     (let df_roi = map (\<lambda>(idx, d). (idx,
            \<lparr>x_micrometer = df_x_micrometer d,
             y_micrometer = df_y_micrometer d,
             z_micrometer = df_z_micrometer d,
             len_x_micrometer = of_int (x_pixel d) * pixel_size_x d,
             len_y_micrometer = of_int (y_pixel d) * pixel_size_y d,
             len_z_micrometer = of_int (z_pixel d) * pixel_size_z d,
             x_micrometer_original = df_x_micrometer_original d,
             y_micrometer_original = df_y_micrometer_original d\<rparr>)) df
      in case reset_origin df_roi of
           Inl e \<Rightarrow> Inl e
         | Inr adata \<Rightarrow> Inr (map (\<lambda>(n, r). (''FOV_'' @ n, r)) adata))"

text \<open>
  The well table: every row of the dataframe gets the bounding box of all fields of
  view, and the first row alone becomes the table. On a dataframe without rows the
  table has no row and \<^verbatim>\<open>reset_origin\<close> raises.
\<close>

definition prepare_well_ROI_table ::
  "(string \<times> fov_metadata) list \<Rightarrow> error + (string \<times> roi_row) list" where
  "prepare_well_ROI_table df =
     (case df of
        [] \<Rightarrow> reset_origin []
      | (idx, d) # rest \<Rightarrow>
          (let max_x = (\<lambda>d. df_x_micrometer d + of_int (x_pixel d) * pixel_size_x d);
               max_y = (\<lambda>d. df_y_micrometer d + of_int (y_pixel d) * pixel_size_y d);
               max_z = (\<lambda>d. df_z_micrometer d + of_int (z_pixel d) * pixel_size_z d);
               min_min_x = fold min (map (\<lambda>(i, d). df_x_micrometer d) rest) (df_x_micrometer d);
               min_min_y = fold min (map (\<lambda>(i, d). df_y_micrometer d) rest) (df_y_micrometer d);
               min_min_z = fold min (map (\<lambda>(i, d). df_z_micrometer d) rest) (df_z_micrometer d);
               max_max_x = fold max (map (\<lambda>(i, d). max_x d) rest) (max_x d);
               max_max_y = fold max (map (\<lambda>(i, d). max_y d) rest) (max_y d);
               max_max_z = fold max (map (\<lambda>(i, d). max_z d) rest) (max_z d);
               df_roi = [(idx,
                 \<lparr>x_micrometer = min_min_x,
                  y_micrometer = min_min_y,
                  z_micrometer = min_min_z,
                  len_x_micrometer = max_max_x - min_min_x,
                  len_y_micrometer = max_max_y - min_min_y,
                  len_z_micrometer = max_max_z - min_min_z\<rparr>)]
           in case reset_origin df_roi of
                Inl e \<Rightarrow> Inl e
              | Inr adata \<Rightarrow> Inr (map (\<lambda>(n, r). (''well_'' @ n, r)) adata)))"

text \<open>
  A table has a zero origin when, on each axis, the least position over its rows is
  zero; then no position is negative.
\<close>

definition zero_origin :: "'a roi_table \<Rightarrow> bool" where
  "zero_origin T \<longleftrightarrow>
     Min (set (map (\<lambda>(n, r). x_micrometer r) T)) = 0 \<and>
     Min (set (map (\<lambda>(n, r). y_micrometer r) T)) = 0 \<and>
     Min (set (map (\<lambda>(n, r). z_micrometer r) T)) = 0 \<and>
     (\<forall>(n, r) \<in> set T. 0 \<le> x_micrometer r \<and> 0 \<le> y_micrometer r \<and> 0 \<le> z_micrometer r)"

definition shifted :: "real \<Rightarrow> real \<Rightarrow> real \<Rightarrow> 'a roi_row_scheme \<Rightarrow> 'a roi_row_scheme" where
  "shifted ox oy oz r =
     r\<lparr>x_micrometer := x_micrometer r - ox,
       y_micrometer := y_micrometer r - oy,
       z_micrometer := z_micrometer r - oz\<rparr>"

section \<open>Grid of ROIs\<close>

text \<open>\<^verbatim>\<open>range(n)\<close>, and \<^verbatim>\<open>str\<close> of an integer in decimal.\<close>

definition py_range :: "int \<Rightarrow> int list" where
  "py_range n = map int [0..<nat n]"

fun str_nat :: "nat \<Rightarrow> string" where
  "str_nat n =
     (if n < 10 then [''0123456789'' ! n]
      else str_nat (n div 10) @ [''0123456789'' ! (n mod 10)])"

definition py_str :: "int \<Rightarrow> string" where
  "py_str i = (if i < 0 then ''-'' @ str_nat (nat (- i)) else str_nat (nat i))"

text \<open>\<^verbatim>\<open>math.ceil(a / b)\<close> on integers.\<close>

definition py_ceil_div :: "int \<Rightarrow> int \<Rightarrow> error + int" where
  "py_ceil_div a b =
     (if b = 0 then Inl ZeroDivisionError else Inr \<lceil>real_of_int a / real_of_int b\<rceil>)"

text \<open>The row that the inner loop of \<^verbatim>\<open>get_image_grid_ROIs\<close> appends to \<^verbatim>\<open>X\<close>.\<close>

definition grid_ROI ::
  "real \<times> real \<times> real \<Rightarrow> int \<Rightarrow> int \<Rightarrow> int \<Rightarrow> int \<Rightarrow> int \<Rightarrow> int \<Rightarrow> fov_row" where
  "grid_ROI pixels_ZYX start_z len_z start_y tmp_len_y start_x tmp_len_x =
     (case pixels_ZYX of (pixels_Z, pixels_Y, pixels_X) \<Rightarrow>
        \<lparr>x_micrometer = of_int start_x * pixels_X,
         y_micrometer = of_int start_y * pixels_Y,
         z_micrometer = of_int start_z * pixels_Z,
         len_x_micrometer = of_int tmp_len_x * pixels_X,
         len_y_micrometer = of_int tmp_len_y * pixels_Y,
         len_z_micrometer = of_int len_z * pixels_Z,
         x_micrometer_original = of_int start_x * pixels_X,
         y_micrometer_original = of_int start_y * pixels_Y\<rparr>)"

text \<open>
  The state of the two loops is \<^verbatim>\<open>X\<close>, \<^verbatim>\<open>obs_names\<close> and \<^verbatim>\<open>counter\<close>.
  \<open>grid_inner\<close> is the body of the loop over \<^verbatim>\<open>ind_x\<close>, \<open>grid_outer\<close> the body of
  the loop over \<^verbatim>\<open>ind_y\<close>.
\<close>

definition grid_inner ::
  "real \<times> real \<times> real \<Rightarrow> int \<Rightarrow> int \<Rightarrow> int \<Rightarrow> int \<Rightarrow> int \<Rightarrow> int
     \<Rightarrow> fov_row list \<times> string list \<times> int \<Rightarrow> int \<Rightarrow> fov_row list \<times> string list \<times> int" where
  "grid_inner pixels_ZYX shape_x len_x start_z len_z start_y tmp_len_y st ind_x =
     (case st of (X, names, counter) \<Rightarrow>
        (let start_x = ind_x * len_x;
             tmp_len_x = min shape_x (start_x + len_x) - start_x;
             X = X @ [grid_ROI pixels_ZYX start_z len_z start_y tmp_len_y start_x tmp_len_x];
             counter = counter + 1
         in (X, names @ [''ROI_'' @ py_str counter], counter)))"

definition grid_outer ::
  "real \<times> real \<times> real \<Rightarrow> int \<Rightarrow> int \<Rightarrow> int \<Rightarrow> int \<Rightarrow> int \<Rightarrow> int \<Rightarrow> int
     \<Rightarrow> fov_row list \<times> string list \<times> int \<Rightarrow> int \<Rightarrow> fov_row list \<times> string list \<times> int" where
  "grid_outer pixels_ZYX shape_y shape_x grid_size_x len_y len_x start_z len_z st ind_y =
     (let start_y = ind_y * len_y;
          tmp_len_y = min shape_y (start_y + len_y) - start_y
      in foldl (grid_inner pixels_ZYX shape_x len_x start_z len_z start_y tmp_len_y) st
           (py_range grid_size_x))"

text \<open>
  \<^verbatim>\<open>np.array\<close> of an empty list is one-dimensional, and the AnnData constructor refuses
  a matrix that is not two-dimensional.
\<close>

definition get_image_grid_ROIs ::
  "int \<times> int \<times> int \<Rightarrow> real \<times> real \<times> real \<Rightarrow> (int \<times> int) option
     \<Rightarrow> error + (string \<times> fov_row) list" where
  "get_image_grid_ROIs array_shape pixels_ZYX grid_ROI_shape =
     (case array_shape of (shape_z, shape_y, shape_x) \<Rightarrow>
      (case (case grid_ROI_shape of None \<Rightarrow> (2, 2) | Some g \<Rightarrow> g) of
         (grid_size_y, grid_size_x) \<Rightarrow>
      (let start_z = 0; len_z = shape_z
       in case py_ceil_div shape_y grid_size_y of
            Inl e \<Rightarrow> Inl e
          | Inr len_y \<Rightarrow>
         (case py_ceil_div shape_x grid_size_x of
            Inl e \<Rightarrow> Inl e
          | Inr len_x \<Rightarrow>
         (case foldl (grid_outer pixels_ZYX shape_y shape_x grid_size_x len_y len_x
                        start_z len_z) ([], [], 0) (py_range grid_size_y) of
            (X, names, counter) \<Rightarrow>
              if X = [] then Inl NotTwoDimensional else Inr (zip names X))))))"

text \<open>
  A row covers the pixel \<open>(p, q)\<close> of the Y-X plane when the lower corner of the pixel
  lies in the half-open rectangle of the row.
\<close>

definition covers :: "real \<times> real \<times> real \<Rightarrow> 'a roi_row_scheme \<Rightarrow> int \<Rightarrow> int \<Rightarrow> bool" where
  "covers pixels_ZYX r p q =
     (case pixels_ZYX of (pixels_Z, pixels_Y, pixels_X) \<Rightarrow>
        y_micrometer r \<le> of_int p * pixels_Y \<and>
        of_int p * pixels_Y < y_micrometer r + len_y_micrometer r \<and>
        x_micrometer r \<le> of_int q * pixels_X \<and>
        of_int q * pixels_X < x_micrometer r + len_x_micrometer r)"

text \<open>The cell of the grid at \<open>(ind_y, ind_x)\<close>, with the cell sizes \<open>len_y\<close> and \<open>len_x\<close>.\<close>

definition grid_cell ::
  "int \<times> int \<times> int \<Rightarrow> real \<times> real \<times> real \<Rightarrow> int \<Rightarrow> int \<Rightarrow> int \<Rightarrow> int \<Rightarrow> fov_row" where
  "grid_cell array_shape pixels_ZYX len_y len_x ind_y ind_x =
     (case array_shape of (shape_z, shape_y, shape_x) \<Rightarrow>
        grid_ROI pixels_ZYX 0 shape_z
          (ind_y * len_y) (min shape_y (ind_y * len_y + len_y) - ind_y * len_y)
          (ind_x * len_x) (min shape_x (ind_x * len_x + len_x) - ind_x * len_x))"

section \<open>Arrays\<close>

text \<open>
  A numpy array: its shape and its elements in row-major order. In a well-formed
  array the number of elements is the product of the shape.
\<close>

record 'a ndarray =
  shape :: "nat list"
  data :: "'a list"

definition wf_array :: "'a ndarray \<Rightarrow> bool" where
  "wf_array a \<longleftrightarrow> length (data a) = prod_list (shape a)"

definition ndim :: "'a ndarray \<Rightarrow> nat" where
  "ndim a = length (shape a)"

text \<open>The coordinates of the element at a position of the row-major order.\<close>

fun unravel_index :: "nat list \<Rightarrow> nat \<Rightarrow> nat list" where
  "unravel_index [] k = []"
| "unravel_index (d # ds) k = (k div prod_list ds) # unravel_index ds (k mod prod_list ds)"

text \<open>The element of a three-dimensional array at \<open>(z, y, x)\<close>.\<close>

definition voxel :: "'a ndarray \<Rightarrow> nat \<Rightarrow> nat \<Rightarrow> nat \<Rightarrow> 'a" where
  "voxel a z y x = data a ! ((z * (shape a ! 1) + y) * (shape a ! 2) + x)"

section \<open>Bounding boxes of labels\<close>

text \<open>\<^verbatim>\<open>np.unique\<close>: the distinct elements in ascending order.\<close>

definition np_unique :: "int ndarray \<Rightarrow> int list" where
  "np_unique a = sort (remdups (data a))"

text \<open>
  \<^verbatim>\<open>np.where(mask_array == label)\<close>: one list of coordinates per axis, over the
  matching elements in row-major order.
\<close>

definition np_where_eq :: "int ndarray \<Rightarrow> int \<Rightarrow> nat list list" where
  "np_where_eq a label =
     (let matches = filter (\<lambda>k. data a ! k = label) [0..<length (data a)]
      in map (\<lambda>ax. map (\<lambda>k. unravel_index (shape a) k ! ax) matches) [0..<ndim a])"

text \<open>
  The product of the per-axis values with the three pixel sizes, unpacked into three
  values. One value per axis is needed; numpy broadcasts a single value to all three
  and refuses any other number of values.
\<close>

definition times_pxl_sizes :: "real list \<Rightarrow> real \<times> real \<times> real \<Rightarrow> error + real \<times> real \<times> real" where
  "times_pxl_sizes vs pxl_sizes_zyx =
     (case pxl_sizes_zyx of (pz, py, px) \<Rightarrow>
        (case vs of
           [vz, vy, vx] \<Rightarrow> Inr (vz * pz, vy * py, vx * px)
         | [v] \<Rightarrow> Inr (v * pz, v * py, v * px)
         | _ \<Rightarrow> Inl BroadcastError))"

text \<open>The body of the loop of \<^verbatim>\<open>array_to_bounding_box_table\<close> for one label.\<close>

definition bounding_box ::
  "int ndarray \<Rightarrow> real \<times> real \<times> real \<Rightarrow> int \<times> int \<times> int \<Rightarrow> int \<Rightarrow> error + roi_row" where
  "bounding_box mask_array pxl_sizes_zyx origin_zyx label =
     (case origin_zyx of (z_origin, y_origin, x_origin) \<Rightarrow>
      (case pxl_sizes_zyx of (pz, py, px) \<Rightarrow>
      (let label_match = np_where_eq mask_array label
       in case sequence (map py_min label_match) of
            Inl e \<Rightarrow> Inl e
          | Inr mins \<Rightarrow>
         (case times_pxl_sizes (map real mins) pxl_sizes_zyx of
            Inl e \<Rightarrow> Inl e
          | Inr (zmin, ymin, xmin) \<Rightarrow>
         (case sequence (map py_max label_match) of
            Inl e \<Rightarrow> Inl e
          | Inr maxs \<Rightarrow>
         (case times_pxl_sizes (map (\<lambda>m. real (m + 1)) maxs) pxl_sizes_zyx of
            Inl e \<Rightarrow> Inl e
          | Inr (zmax, ymax, xmax) \<Rightarrow>
              (let length_x = xmax - xmin;
                   length_y = ymax - ymin;
                   length_z = zmax - zmin;
                   zmin = zmin + of_int z_origin * pz;
                   ymin = ymin + of_int y_origin * py;
                   xmin = xmin + of_int x_origin * px
               in Inr \<lparr>x_micrometer = xmin, y_micrometer = ymin, z_micrometer = zmin,
                       len_x_micrometer = length_x, len_y_micrometer = length_y,
                       len_z_micrometer = length_z\<rparr>)))))))"

record bbox_row = roi_row +
  label :: int

text \<open>
  The dataframe is the list of its rows; without rows it still has the six ROI
  columns and the label column, which are the fields of the row type.
\<close>

definition array_to_bounding_box_table ::
  "int ndarray \<Rightarrow> real \<times> real \<times> real \<Rightarrow> int \<times> int \<times> int \<Rightarrow> error + bbox_row list" where
  "array_to_bounding_box_table mask_array pxl_sizes_zyx origin_zyx =
     (let labels = filter (\<lambda>l. 0 < l) (np_unique mask_array)
      in case sequence (map (bounding_box mask_array pxl_sizes_zyx origin_zyx) labels) of
           Inl e \<Rightarrow> Inl e
         | Inr elem_list \<Rightarrow>
             Inr (map (\<lambda>(elem, l).
                    \<lparr>x_micrometer = x_micrometer elem, y_micrometer = y_micrometer elem,
                     z_micrometer = z_micrometer elem,
                     len_x_micrometer = len_x_micrometer elem,
                     len_y_micrometer = len_y_micrometer elem,
                     len_z_micrometer = len_z_micrometer elem,
                     label = l\<rparr>) (zip elem_list labels)))"

text \<open>The voxels of a three-dimensional array that carry a given label.\<close>

definition label_voxels :: "int ndarray \<Rightarrow> int \<Rightarrow> (nat \<times> nat \<times> nat) set" where
  "label_voxels a l =
     {(z, y, x). z < shape a ! 0 \<and> y < shape a ! 1 \<and> x < shape a ! 2 \<and> voxel a z y x = l}"

text \<open>
  The position of \<open>(z, y, x)\<close> in the row-major order of an array with \<open>ny\<close> rows
  and \<open>nx\<close> columns per plane, and the coordinates of a position.
\<close>

definition flat_index :: "nat \<Rightarrow> nat \<Rightarrow> nat \<Rightarrow> nat \<Rightarrow> nat \<Rightarrow> nat" where
  "flat_index ny nx z y x = (z * ny + y) * nx + x"

definition coords :: "nat \<Rightarrow> nat \<Rightarrow> nat \<Rightarrow> nat \<times> nat \<times> nat" where
  "coords ny nx k = (k div (ny * nx), (k mod (ny * nx)) div nx, (k mod (ny * nx)) mod nx)"

text \<open>
  The bounding box that the specification gives for a label: per axis, the least voxel
  coordinate (shifted by the origin) and the greatest coordinate plus one minus the
  least, each times the pixel size.
\<close>

definition spec_bounding_box ::
  "int ndarray \<Rightarrow> real \<times> real \<times> real \<Rightarrow> int \<times> int \<times> int \<Rightarrow> int \<Rightarrow> bbox_row" where
  "spec_bounding_box a pxl_sizes_zyx origin_zyx l =
     (case pxl_sizes_zyx of (pz, py, px) \<Rightarrow>
      (case origin_zyx of (z_origin, y_origin, x_origin) \<Rightarrow>
         (let zs = (\<lambda>(z, y, x). z) ` label_voxels a l;
              ys = (\<lambda>(z, y, x). y) ` label_voxels a l;
              xs = (\<lambda>(z, y, x). x) ` label_voxels a l
          in \<lparr>x_micrometer = (real (Min xs) + of_int x_origin) * px,
              y_micrometer = (real (Min ys) + of_int y_origin) * py,
              z_micrometer = (real (Min zs) + of_int z_origin) * pz,
              len_x_micrometer = (real (Max xs) + 1 - real (Min xs)) * px,
              len_y_micrometer = (real (Max ys) + 1 - real (Min ys)) * py,
              len_z_micrometer = (real (Max zs) + 1 - real (Min zs)) * pz,
              label = l\<rparr>)))"

section \<open>Masked regions\<close>

text \<open>
  The arrays that the caller holds live in a store, addressed by position; a function
  that assigns into an array it was given returns the store with the array replaced.
  Arrays that a function only reads, or builds itself, are values.
\<close>

type_synonym addr = nat

type_synonym 'a heap = "'a ndarray list"

definition heap_get :: "'a heap \<Rightarrow> addr \<Rightarrow> error + 'a ndarray" where
  "heap_get h a = (if a < length h then Inr (h ! a) else Inl InvalidReference)"

text \<open>The columns of the \<^verbatim>\<open>obs\<close> dataframe of a ROI table, by name.\<close>

type_synonym dataframe = "(string \<times> int list) list"

text \<open>\<^verbatim>\<open>primary_label_array != label_value\<close> and \<^verbatim>\<open>np.expand_dims(a, axis=0)\<close>.\<close>

definition np_not_equal :: "int ndarray \<Rightarrow> int \<Rightarrow> bool ndarray" where
  "np_not_equal a v = \<lparr>shape = shape a, data = map (\<lambda>e. e \<noteq> v) (data a)\<rparr>"

definition expand_dims :: "'a ndarray \<Rightarrow> 'a ndarray" where
  "expand_dims a = \<lparr>shape = 1 # shape a, data = data a\<rparr>"

text \<open>\<^verbatim>\<open>(primary_label_array == label_value).sum()\<close>.\<close>

definition count_equal :: "int ndarray \<Rightarrow> int \<Rightarrow> nat" where
  "count_equal a v = length (filter (\<lambda>e. e = v) (data a))"




definition setitem_mask_scalar :: "'a ndarray \<Rightarrow> bool ndarray \<Rightarrow> 'a \<Rightarrow> error + 'a ndarray" where
  "setitem_mask_scalar a index v =
     (if shape index \<noteq> shape a then Inl IndexError
      else Inr (a\<lparr>data := map (\<lambda>(b, e). if b then v else e) (zip (data index) (data a))\<rparr>))"

text \<open>
  \<^verbatim>\<open>None in (region, current_label_path, primary_label_path, ROI_table_obs, index_ROI)\<close>
  compares the elements with \<^verbatim>\<open>None\<close> one after the other and takes the truth value
  of each comparison. For a tuple of slices, a string and an integer the comparison is
  false. For the dataframe it is what pandas makes of it, the parameter
  \<open>eq_None_truth\<close>: pandas compares a dataframe with \<^verbatim>\<open>None\<close> elementwise, and the
  truth value of the dataframe that results raises ValueError.
\<close>

definition None_in ::
  "(dataframe \<Rightarrow> error + bool) \<Rightarrow> 'r option \<Rightarrow> string option \<Rightarrow> string option
     \<Rightarrow> dataframe option \<Rightarrow> nat option \<Rightarrow> error + bool" where
  "None_in eq_None_truth region current_label_path primary_label_path ROI_table_obs index_ROI =
     (if region = None then Inr True
      else if current_label_path = None then Inr True
      else if primary_label_path = None then Inr True
      else (case ROI_table_obs of
              None \<Rightarrow> Inr True
            | Some obs \<Rightarrow>
                (case eq_None_truth obs of
                   Inl e \<Rightarrow> Inl e
                 | Inr True \<Rightarrow> Inr True
                 | Inr False \<Rightarrow> Inr (index_ROI = None))))"

text \<open>
  \<open>preprocess_cellpose_input\<close>. \<open>from_zarr path region\<close> is the array that
  \<^verbatim>\<open>da.from_zarr(path)[region].compute()\<close> loads from the array store, a new array.
  \<open>image_array\<close> is the address of the caller's array; the result carries the store
  after the call and the address of the returned array. Once the test for \<^verbatim>\<open>None\<close>
  is passed, all five optional arguments are there. The elements of the image are of
  any numeric type; the labels are integers.
\<close>

definition preprocess_cellpose_input ::
  "(dataframe \<Rightarrow> error + bool) \<Rightarrow> (string \<Rightarrow> 'r \<Rightarrow> int ndarray) \<Rightarrow> 'a::zero heap \<Rightarrow> addr
     \<Rightarrow> bool \<Rightarrow> 'r option \<Rightarrow> string option \<Rightarrow> string option \<Rightarrow> dataframe option
     \<Rightarrow> nat option
     \<Rightarrow> error + ('a heap \<times> addr \<times> bool ndarray option \<times> int ndarray option)" where
  "preprocess_cellpose_input eq_None_truth from_zarr h image_array use_masks
       region current_label_path primary_label_path ROI_table_obs index_ROI =
     (case heap_get h image_array of
        Inl e \<Rightarrow> Inl e
      | Inr img \<Rightarrow>
          if \<not> ndim img = 4 then Inl (NotFourDimensional (shape img))
          else if use_masks then
            (case None_in eq_None_truth region current_label_path primary_label_path
                    ROI_table_obs index_ROI of
               Inl e \<Rightarrow> Inl e
             | Inr True \<Rightarrow> Inl MissingArguments
             | Inr False \<Rightarrow>
                 (case (region, current_label_path, primary_label_path, ROI_table_obs,
                        index_ROI) of
                    (Some region, Some current_label_path, Some primary_label_path,
                     Some ROI_table_obs, Some index_ROI) \<Rightarrow>
                      (case map_of ROI_table_obs ''label'' of
                         None \<Rightarrow> Inl MissingLabelColumn
                       | Some label_column \<Rightarrow>
                      (case py_item label_column index_ROI of
                         Inl e \<Rightarrow> Inl e
                       | Inr label_value \<Rightarrow>
                      (let primary_label_array = from_zarr primary_label_path region
                       in if shape primary_label_array \<noteq> tl (shape img)
                          then Inl (ShapeMismatch (shape img) (shape primary_label_array))
                          else
                      (let current_label_array = from_zarr current_label_path region;
                           background_3D = np_not_equal primary_label_array label_value
                       in if count_equal primary_label_array label_value = 0
                          then Inl LabelNotFound
                          else
                      (let background_4D = expand_dims background_3D
                       in case setitem_mask_scalar img background_4D 0 of
                            Inl e \<Rightarrow> Inl e
                          | Inr masked \<Rightarrow>
                              Inr (h[image_array := masked], image_array,
                                   Some background_3D, Some current_label_array))))))
                  | _ \<Rightarrow> Inl MissingArguments))
          else Inr (h, image_array, None, None))"




section \<open>Properties of rounding\<close>

lemma py_round_nearest: "\<bar>of_int (py_round v) - v\<bar> \<le> 1 / 2"
  unfolding py_round_def Let_def by (auto simp: abs_if) linarith+

lemma py_round_lower: "\<lfloor>v\<rfloor> \<le> py_round v"
  unfolding py_round_def Let_def by auto

lemma py_round_upper: "py_round v \<le> \<lfloor>v\<rfloor> + 1"
  unfolding py_round_def Let_def by auto

lemma py_round_mono: "v \<le> w \<Longrightarrow> py_round v \<le> py_round w"
proof -
  assume le: "v \<le> w"
  then have fl: "\<lfloor>v\<rfloor> \<le> \<lfloor>w\<rfloor>" by (rule floor_mono)
  show ?thesis
  proof (cases "\<lfloor>v\<rfloor> < \<lfloor>w\<rfloor>")
    case True
    have "py_round v \<le> \<lfloor>v\<rfloor> + 1" by (rule py_round_upper)
    also have "\<dots> \<le> \<lfloor>w\<rfloor>" using True by simp
    also have "\<dots> \<le> py_round w" by (rule py_round_lower)
    finally show ?thesis .
  next
    case False
    with fl have eq: "\<lfloor>v\<rfloor> = \<lfloor>w\<rfloor>" by simp
    with le have "v - of_int \<lfloor>v\<rfloor> \<le> w - of_int \<lfloor>w\<rfloor>" by simp
    then show ?thesis
      unfolding py_round_def Let_def eq by auto
  qed
qed

lemma py_round_of_int: "py_round (of_int k) = k"
  by (simp add: py_round_def)

lemma py_round_nonneg: "0 \<le> v \<Longrightarrow> 0 \<le> py_round v"
  using py_round_mono [of 0 v] py_round_of_int [of 0] by simp

section \<open>Properties of the conversion\<close>

lemma fold_min_less: "fold min vs (v::int) < 0 \<longleftrightarrow> v < 0 \<or> (\<exists>i \<in> set vs. i < 0)"
  by (induction vs arbitrary: v) (auto simp: min_def)

lemma convert_ROI_eq:
  assumes "map_of ROI n = Some r" and "pz \<noteq> 0" and "py \<noteq> 0" and "px \<noteq> 0"
  shows "convert_ROI ROI pz py px L n =
           (if has_negative (spec_indices r pz py px)
            then Inl (NegativeIndices n (z_micrometer r, y_micrometer r, x_micrometer r)
                   (pz, py, px) L)
            else Inr (spec_indices r pz py px))"
  using assms
  by (simp add: convert_ROI_def round_div_def spec_indices_def has_negative_def
      fold_min_less Let_def min_less_iff_disj)

lemma convert_loop_eq:
  assumes "\<forall>(n, r) \<in> set rows. map_of ROI n = Some r"
    and "pz \<noteq> 0" and "py \<noteq> 0" and "px \<noteq> 0"
  shows "convert_loop ROI pz py px L (map fst rows) acc =
           (case find (\<lambda>(n, r). has_negative (spec_indices r pz py px)) rows of
              None \<Rightarrow> Inr (acc @ map (\<lambda>(n, r). spec_indices r pz py px) rows)
            | Some (n, r) \<Rightarrow>
                Inl (NegativeIndices n (z_micrometer r, y_micrometer r, x_micrometer r)
                  (pz, py, px) L))"
  using assms(1)
proof (induction rows arbitrary: acc)
  case Nil
  then show ?case by simp
next
  case (Cons a rows)
  obtain n r where a: "a = (n, r)" by (cases a)
  with Cons.prems have m: "map_of ROI n = Some r" by simp
  from Cons.prems have rest: "\<forall>(n, r) \<in> set rows. map_of ROI n = Some r" by simp
  show ?case
    using Cons.IH [OF rest] convert_ROI_eq [OF m assms(2-4), of L]
    by (simp add: a split: option.splits)
qed

lemma map_of_distinct_rows:
  "distinct (map fst ROI) \<Longrightarrow> \<forall>(n, r) \<in> set ROI. map_of ROI n = Some r"
  by auto

lemma convert_table_eq:
  assumes "distinct (obs_names ROI)"
    and "pz \<noteq> 0" and "py * of_int (c ^ L) \<noteq> 0" and "px * of_int (c ^ L) \<noteq> 0"
  shows "convert_ROI_table_to_indices ROI (pz, py, px) L c =
           (case find (\<lambda>(n, r). has_negative
                    (spec_indices r pz (py * of_int (c ^ L)) (px * of_int (c ^ L)))) ROI of
              None \<Rightarrow> Inr (map (\<lambda>(n, r).
                    spec_indices r pz (py * of_int (c ^ L)) (px * of_int (c ^ L))) ROI)
            | Some (n, r) \<Rightarrow>
                Inl (NegativeIndices n (z_micrometer r, y_micrometer r, x_micrometer r)
                  (pz, py * of_int (c ^ L), px * of_int (c ^ L)) L))"
proof -
  have rows: "\<forall>(n, r) \<in> set ROI. map_of ROI n = Some r"
    using assms(1) unfolding obs_names_def by (rule map_of_distinct_rows)
  show ?thesis
  proof (cases "ROI = []")
    case True
    then show ?thesis by (simp add: convert_ROI_table_to_indices_def)
  next
    case False
    then show ?thesis
      using convert_loop_eq [OF rows assms(2-4), of L "[]"]
      by (simp add: convert_ROI_table_to_indices_def obs_names_def Let_def
          del: of_int_power split: option.splits)
  qed
qed

text \<open>
  Claim C1. On a table with unique row names and positive pixel sizes at the level
  (the Z size, and the Y and X sizes multiplied by \<open>c ^ L\<close>),
  \<open>convert_ROI_table_to_indices\<close> returns one list of six integers per row, in the
  order of the rows, each the quotient rounded to the nearest integer; it fails exactly
  when some row has a negative index, with the name of the first such row, its
  position, the pixel sizes used and the level; an empty table gives the empty list.
\<close>

theorem convert_ROI_table_to_indices_correct:
  assumes "distinct (obs_names ROI)"
    and "0 < pz" and "0 < py * of_int (c ^ L)" and "0 < px * of_int (c ^ L)"
  shows "convert_ROI_table_to_indices ROI (pz, py, px) L c =
           (case find (\<lambda>(n, r). has_negative
                    (spec_indices r pz (py * of_int (c ^ L)) (px * of_int (c ^ L)))) ROI of
              None \<Rightarrow> Inr (map (\<lambda>(n, r).
                    spec_indices r pz (py * of_int (c ^ L)) (px * of_int (c ^ L))) ROI)
            | Some (n, r) \<Rightarrow>
                Inl (NegativeIndices n (z_micrometer r, y_micrometer r, x_micrometer r)
                  (pz, py * of_int (c ^ L), px * of_int (c ^ L)) L))
         \<and> convert_ROI_table_to_indices [] (pz, py, px) L c = Inr []
         \<and> (\<forall>v. \<bar>of_int (py_round v) - v\<bar> \<le> 1 / 2)"
proof -
  have nz: "pz \<noteq> 0" "py * of_int (c ^ L) \<noteq> 0" "px * of_int (c ^ L) \<noteq> 0"
    using assms(2-4) by (metis less_irrefl)+
  have "convert_ROI_table_to_indices [] (pz, py, px) L c = Inr []"
    by (simp add: convert_ROI_table_to_indices_def)
  then show ?thesis
    using convert_table_eq [OF assms(1) nz] py_round_nearest by blast
qed

theorem convert_ROI_table_to_indices_correct_witness:
  "distinct (obs_names
      [(''FOV_1'', \<lparr>x_micrometer = 0, y_micrometer = 0, z_micrometer = 0,
          len_x_micrometer = 2, len_y_micrometer = 2, len_z_micrometer = 1\<rparr>),
       (''FOV_2'', \<lparr>x_micrometer = 2, y_micrometer = 0, z_micrometer = 0,
          len_x_micrometer = 3, len_y_micrometer = 2, len_z_micrometer = 1\<rparr>)])
   \<and> (0::real) < 1 \<and> (0::real) < 1 / 2 * of_int (2 ^ 1)
   \<and> convert_ROI_table_to_indices
      [(''FOV_1'', \<lparr>x_micrometer = 0, y_micrometer = 0, z_micrometer = 0,
          len_x_micrometer = 2, len_y_micrometer = 2, len_z_micrometer = 1\<rparr>),
       (''FOV_2'', \<lparr>x_micrometer = 2, y_micrometer = 0, z_micrometer = 0,
          len_x_micrometer = 3, len_y_micrometer = 2, len_z_micrometer = 1\<rparr>)]
      (1, 1 / 2, 1 / 2) 1 2 = Inr [[0, 1, 0, 2, 0, 2], [0, 1, 0, 2, 2, 5]]"
  using convert_ROI_table_to_indices_correct
    [of "[(''FOV_1'', \<lparr>x_micrometer = 0, y_micrometer = 0, z_micrometer = 0,
          len_x_micrometer = 2, len_y_micrometer = 2, len_z_micrometer = 1\<rparr>),
       (''FOV_2'', \<lparr>x_micrometer = 2, y_micrometer = 0, z_micrometer = 0,
          len_x_micrometer = 3, len_y_micrometer = 2, len_z_micrometer = 1\<rparr>)]"
      1 "1 / 2" 2 1 "1 / 2", THEN conjunct1]
  by (simp add: obs_names_def spec_indices_def has_negative_def py_round_def)


section \<open>Monotonicity in the pyramid level\<close>

lemma py_round_div_nonneg: "0 \<le> v \<Longrightarrow> 0 < p \<Longrightarrow> 0 \<le> py_round (v / p)"
  by (rule py_round_nonneg) simp

lemma py_round_div_antimono:
  assumes "0 \<le> v" and "0 < p" and "p \<le> q"
  shows "py_round (v / q) \<le> py_round (v / p)"
  by (rule py_round_mono) (use assms in \<open>simp add: frac_le\<close>)

lemma spec_indices_nonneg:
  assumes "nonneg_row r" and "0 < pz" and "0 < py" and "0 < px"
  shows "\<not> has_negative (spec_indices r pz py px)"
  using assms
  by (simp add: has_negative_def spec_indices_def nonneg_row_def py_round_div_nonneg
      not_less)

lemma find_no_negative:
  assumes "\<forall>(n, r) \<in> set ROI. nonneg_row r" and "0 < pz" and "0 < py" and "0 < px"
  shows "find (\<lambda>(n, r). has_negative (spec_indices r pz py px)) ROI = None"
  using assms spec_indices_nonneg by (fastforce simp: find_None_iff)

lemma spec_indices_antimono:
  assumes "nonneg_row r" and "0 < py" and "py \<le> py'" and "0 < px" and "px \<le> px'"
    and "j < 6"
  shows "spec_indices r pz py' px' ! j \<le> spec_indices r pz py px ! j"
proof -
  from \<open>j < 6\<close> consider "j = 0" | "j = 1" | "j = 2" | "j = 3" | "j = 4" | "j = 5"
    by linarith
  then show ?thesis
    using assms(1-5)
    by cases (simp_all add: spec_indices_def nonneg_row_def py_round_div_antimono)
qed

lemma level_prefactor_mono:
  assumes "1 \<le> c" and "L1 \<le> L2" and "0 < (p::real)"
  shows "0 < p * of_int (c ^ L1)" and "p * of_int (c ^ L1) \<le> p * of_int (c ^ L2)"
proof -
  have "0 < c ^ L1" using assms(1) by simp
  then have "(0::real) < of_int (c ^ L1)" by (simp only: of_int_0_less_iff)
  then show "0 < p * of_int (c ^ L1)" using assms(3) by (rule_tac mult_pos_pos)
  have "c ^ L1 \<le> c ^ L2" using assms(1,2) by (simp add: power_increasing)
  then have "(of_int (c ^ L1) :: real) \<le> of_int (c ^ L2)" by (simp only: of_int_le_iff)
  then show "p * of_int (c ^ L1) \<le> p * of_int (c ^ L2)"
    using assms(3) by (simp only: mult_le_cancel_left_pos)
qed

text \<open>
  Claim C8. For rows with non-negative positions and extents, positive full-resolution
  pixel sizes and a coarsening factor of at least 1, the conversion succeeds at every
  level, and for \<open>L1 \<le> L2\<close> each of the six indices of each row at level \<open>L2\<close> is
  at most the index at level \<open>L1\<close>; the two Z indices are the same at both levels.
\<close>

theorem convert_ROI_table_to_indices_level_mono:
  assumes "distinct (obs_names ROI)"
    and "\<forall>(n, r) \<in> set ROI. nonneg_row r"
    and "0 < pz" and "0 < py" and "0 < px" and "1 \<le> c" and "L1 \<le> L2"
  shows "\<exists>out1 out2.
           convert_ROI_table_to_indices ROI (pz, py, px) L1 c = Inr out1 \<and>
           convert_ROI_table_to_indices ROI (pz, py, px) L2 c = Inr out2 \<and>
           length out1 = length ROI \<and> length out2 = length ROI \<and>
           (\<forall>k < length ROI.
              length (out1 ! k) = 6 \<and> length (out2 ! k) = 6 \<and>
              (\<forall>j < 6. out2 ! k ! j \<le> out1 ! k ! j) \<and>
              out2 ! k ! 0 = out1 ! k ! 0 \<and> out2 ! k ! 1 = out1 ! k ! 1)"
proof -
  let ?py1 = "py * of_int (c ^ L1)" and ?px1 = "px * of_int (c ^ L1)"
  let ?py2 = "py * of_int (c ^ L2)" and ?px2 = "px * of_int (c ^ L2)"
  let ?out1 = "map (\<lambda>(n, r). spec_indices r pz ?py1 ?px1) ROI"
  let ?out2 = "map (\<lambda>(n, r). spec_indices r pz ?py2 ?px2) ROI"
  have y1: "0 < ?py1" and y12: "?py1 \<le> ?py2"
    using level_prefactor_mono [OF assms(6,7) assms(4)] by blast+
  have x1: "0 < ?px1" and x12: "?px1 \<le> ?px2"
    using level_prefactor_mono [OF assms(6,7) assms(5)] by blast+
  have y2: "0 < ?py2" using y1 y12 by linarith
  have x2: "0 < ?px2" using x1 x12 by linarith
  have nz1: "pz \<noteq> 0" "?py1 \<noteq> 0" "?px1 \<noteq> 0"
    using assms(3) y1 x1 by (metis less_irrefl)+
  have nz2: "pz \<noteq> 0" "?py2 \<noteq> 0" "?px2 \<noteq> 0"
    using assms(3) y2 x2 by (metis less_irrefl)+
  have r1: "convert_ROI_table_to_indices ROI (pz, py, px) L1 c = Inr ?out1"
    using convert_table_eq [OF assms(1) nz1] find_no_negative [OF assms(2,3) y1 x1]
    by simp
  have r2: "convert_ROI_table_to_indices ROI (pz, py, px) L2 c = Inr ?out2"
    using convert_table_eq [OF assms(1) nz2] find_no_negative [OF assms(2,3) y2 x2]
    by simp
  have rows: "length (?out1 ! k) = 6 \<and> length (?out2 ! k) = 6 \<and>
              (\<forall>j < 6. ?out2 ! k ! j \<le> ?out1 ! k ! j) \<and>
              ?out2 ! k ! 0 = ?out1 ! k ! 0 \<and> ?out2 ! k ! 1 = ?out1 ! k ! 1"
    if k: "k < length ROI" for k
  proof -
    obtain n r where nr: "ROI ! k = (n, r)" by (cases "ROI ! k")
    with k assms(2) have nn: "nonneg_row r"
      by (metis (mono_tags, lifting) case_prodD nth_mem)
    have o1: "?out1 ! k = spec_indices r pz ?py1 ?px1"
      and o2: "?out2 ! k = spec_indices r pz ?py2 ?px2"
      using k nr by simp_all
    have "\<forall>j < 6. spec_indices r pz ?py2 ?px2 ! j \<le> spec_indices r pz ?py1 ?px1 ! j"
      using spec_indices_antimono [OF nn y1 y12 x1 x12] by blast
    then show ?thesis
      unfolding o1 o2 by (simp add: spec_indices_def)
  qed
  show ?thesis
    using r1 r2 rows by (intro exI [of _ ?out1] exI [of _ ?out2]) simp
qed

theorem convert_ROI_table_to_indices_level_mono_witness:
  "\<exists>out1 out2.
     convert_ROI_table_to_indices
       [(''ROI_1'', \<lparr>x_micrometer = 1, y_micrometer = 0, z_micrometer = 0,
          len_x_micrometer = 2, len_y_micrometer = 2, len_z_micrometer = 1\<rparr>)]
       (1, 1 / 2, 1 / 2) 0 2 = Inr out1 \<and>
     convert_ROI_table_to_indices
       [(''ROI_1'', \<lparr>x_micrometer = 1, y_micrometer = 0, z_micrometer = 0,
          len_x_micrometer = 2, len_y_micrometer = 2, len_z_micrometer = 1\<rparr>)]
       (1, 1 / 2, 1 / 2) 1 2 = Inr out2 \<and>
     (\<forall>j < 6. out2 ! 0 ! j \<le> out1 ! 0 ! j)"
proof -
  have "\<exists>out1 out2.
     convert_ROI_table_to_indices
       [(''ROI_1'', \<lparr>x_micrometer = 1, y_micrometer = 0, z_micrometer = 0,
          len_x_micrometer = 2, len_y_micrometer = 2, len_z_micrometer = 1\<rparr>)]
       (1, 1 / 2, 1 / 2) 0 2 = Inr out1 \<and>
     convert_ROI_table_to_indices
       [(''ROI_1'', \<lparr>x_micrometer = 1, y_micrometer = 0, z_micrometer = 0,
          len_x_micrometer = 2, len_y_micrometer = 2, len_z_micrometer = 1\<rparr>)]
       (1, 1 / 2, 1 / 2) 1 2 = Inr out2 \<and>
     length out1 = length [(''ROI_1'', \<lparr>x_micrometer = 1, y_micrometer = 0, z_micrometer = 0,
          len_x_micrometer = 2, len_y_micrometer = 2, len_z_micrometer = (1::real)\<rparr>)] \<and>
     length out2 = length [(''ROI_1'', \<lparr>x_micrometer = 1, y_micrometer = 0, z_micrometer = 0,
          len_x_micrometer = 2, len_y_micrometer = 2, len_z_micrometer = (1::real)\<rparr>)] \<and>
     (\<forall>k < length [(''ROI_1'', \<lparr>x_micrometer = 1, y_micrometer = 0, z_micrometer = 0,
          len_x_micrometer = 2, len_y_micrometer = 2, len_z_micrometer = (1::real)\<rparr>)].
        length (out1 ! k) = 6 \<and> length (out2 ! k) = 6 \<and>
        (\<forall>j < 6. out2 ! k ! j \<le> out1 ! k ! j) \<and>
        out2 ! k ! 0 = out1 ! k ! 0 \<and> out2 ! k ! 1 = out1 ! k ! 1)"
    by (rule convert_ROI_table_to_indices_level_mono)
       (simp_all add: obs_names_def nonneg_row_def)
  then show ?thesis by auto
qed

section \<open>Properties of the zero-origin check\<close>

lemma sequence_py_item:
  assumes "\<forall>item \<in> set list_indices. k < length item"
  shows "sequence (map (\<lambda>item. py_item item k) list_indices)
           = Inr (map (\<lambda>item. item ! k) list_indices)"
  using assms by (induction list_indices) (simp_all add: py_item_def)

lemma py_min_Min: "vs \<noteq> [] \<Longrightarrow> py_min vs = Inr (Min (set vs))"
  by (cases vs) (simp_all add: Min.set_eq_fold [symmetric])

lemma min_start_Min:
  assumes "list_indices \<noteq> []" and "\<forall>item \<in> set list_indices. k < length item"
  shows "min_start list_indices k = Inr (Min (set (map (\<lambda>item. item ! k) list_indices)))"
  using assms by (simp add: min_start_def sequence_py_item py_min_Min)

text \<open>
  On a list that is not empty, whose entries have six integers each, the check fails
  exactly for a field-of-view or well table with a per-axis minimum of the start
  indices other than zero, and the error carries the first such axis in the order
  Z, Y, X and its minimum.
\<close>

lemma check_valid_ROI_indices_nonempty:
  assumes "list_indices \<noteq> []" and "\<forall>item \<in> set list_indices. length item = 6"
  shows "check_valid_ROI_indices list_indices name =
           (let mz = Min (set (map (\<lambda>item. item ! 0) list_indices));
                my = Min (set (map (\<lambda>item. item ! 2) list_indices));
                mx = Min (set (map (\<lambda>item. item ! 4) list_indices))
            in if name \<noteq> ''FOV_ROI_table'' \<and> name \<noteq> ''well_ROI_table'' then Inr ()
               else if mz \<noteq> 0 then Inl (NonZeroOrigin Z_axis name mz)
               else if my \<noteq> 0 then Inl (NonZeroOrigin Y_axis name my)
               else if mx \<noteq> 0 then Inl (NonZeroOrigin X_axis name mx)
               else Inr ())"
proof -
  have "min_start list_indices 0 = Inr (Min (set (map (\<lambda>item. item ! 0) list_indices)))"
    and "min_start list_indices 2 = Inr (Min (set (map (\<lambda>item. item ! 2) list_indices)))"
    and "min_start list_indices 4 = Inr (Min (set (map (\<lambda>item. item ! 4) list_indices)))"
    using assms by (simp_all add: min_start_Min)
  then show ?thesis
    by (simp add: check_valid_ROI_indices_def Let_def)
qed

lemma check_valid_ROI_indices_other_table:
  "name \<noteq> ''FOV_ROI_table'' \<Longrightarrow> name \<noteq> ''well_ROI_table'' \<Longrightarrow>
   check_valid_ROI_indices list_indices name = Inr ()"
  by (simp add: check_valid_ROI_indices_def)

lemma check_valid_ROI_indices_examples:
  "check_valid_ROI_indices [[-1, 1, 0, 2, 0, 2]] ''FOV_ROI_table''
     = Inl (NonZeroOrigin Z_axis ''FOV_ROI_table'' (-1))"
  "check_valid_ROI_indices [[0, 1, 0, 2, 0, 2], [0, 1, 0, 2, 2, 4]] ''FOV_ROI_table'' = Inr ()"
  by (simp_all add: check_valid_ROI_indices_def min_start_def py_item_def)

text \<open>
  Claim C2. The check is meant to fail only for a per-axis minimum other than zero,
  naming the axis. On the empty list of index ranges, which
  \<open>convert_ROI_table_to_indices\<close> returns for an empty table, the check of a
  field-of-view table fails all the same: \<^verbatim>\<open>min\<close> raises on the empty sequence, and
  the error names no axis.
\<close>

theorem check_valid_ROI_indices_empty:
  "check_valid_ROI_indices [] ''FOV_ROI_table'' = Inl EmptySequence
   \<and> check_valid_ROI_indices [] ''well_ROI_table'' = Inl EmptySequence
   \<and> convert_ROI_table_to_indices [] (pz, py, px) L c = Inr []"
  by (simp add: check_valid_ROI_indices_def min_start_def convert_ROI_table_to_indices_def)


section \<open>Properties of origin normalization\<close>

lemma table_get_row: "map_of T n = Some r \<Longrightarrow> table_get T n col = Inr (col r)"
  by (simp add: table_get_def)

lemma map_of_table_set:
  "map_of (table_set T n upd) m = (if m = n then map_option upd (map_of T n) else map_of T m)"
  by (induction T) (auto simp: table_set_def)

lemma table_set_twice: "table_set (table_set T n f) n g = table_set T n (g \<circ> f)"
  by (induction T) (auto simp: table_set_def)

lemma table_set_cong:
  assumes "\<forall>(m, r) \<in> set T. m = n \<longrightarrow> f r = g r"
  shows "table_set T n f = table_set T n g"
  using assms by (induction T) (auto simp: table_set_def)

lemma distinct_same_row:
  assumes "distinct (map fst T)" and "map_of T n = Some r"
  shows "\<forall>(m, r') \<in> set T. m = n \<longrightarrow> r' = r"
proof clarify
  fix r'
  assume "(n, r') \<in> set T"
  with assms(1) have "map_of T n = Some r'" by (rule map_of_is_SomeI)
  with assms(2) show "r' = r" by simp
qed

lemma reset_origin_step_eq:
  assumes "distinct (map fst T)" and "map_of T FOV = Some r"
  shows "reset_origin_step T ox oy oz FOV = Inr (table_set T FOV (shifted ox oy oz))"
proof -
  let ?fx = "x_micrometer_update (\<lambda>_. x_micrometer r - ox)"
  let ?fy = "y_micrometer_update (\<lambda>_. y_micrometer r - oy)"
  let ?fz = "z_micrometer_update (\<lambda>_. z_micrometer r - oz)"
  have gx: "table_get T FOV x_micrometer = Inr (x_micrometer r)"
    using assms(2) by (rule table_get_row)
  have "map_of (table_set T FOV ?fx) FOV = Some (?fx r)"
    using assms(2) by (simp add: map_of_table_set)
  then have gy: "table_get (table_set T FOV ?fx) FOV y_micrometer = Inr (y_micrometer r)"
    by (simp add: table_get_def)
  have "map_of (table_set (table_set T FOV ?fx) FOV ?fy) FOV = Some (?fy (?fx r))"
    using assms(2) by (simp add: map_of_table_set)
  then have gz: "table_get (table_set (table_set T FOV ?fx) FOV ?fy) FOV z_micrometer
                   = Inr (z_micrometer r)"
    by (simp add: table_get_def)
  have "reset_origin_step T ox oy oz FOV
          = Inr (table_set (table_set (table_set T FOV ?fx) FOV ?fy) FOV ?fz)"
    by (simp add: reset_origin_step_def gx gy gz Let_def)
  also have "table_set (table_set (table_set T FOV ?fx) FOV ?fy) FOV ?fz
          = table_set T FOV (?fz \<circ> (?fy \<circ> ?fx))"
    by (simp only: table_set_twice)
  also have "\<dots> = table_set T FOV (shifted ox oy oz)"
    using distinct_same_row [OF assms]
    by (intro table_set_cong) (auto simp: shifted_def)
  finally show ?thesis .
qed

lemma fst_table_set: "map fst (table_set T n upd) = map fst T"
  by (induction T) (auto simp: table_set_def)

lemma reset_origin_loop_eq:
  assumes "distinct (map fst T)" and "distinct names" and "set names \<subseteq> set (map fst T)"
  shows "reset_origin_loop T ox oy oz names =
           Inr (map (\<lambda>(n, r). if n \<in> set names then (n, shifted ox oy oz r) else (n, r)) T)"
  using assms
proof (induction names arbitrary: T)
  case Nil
  then show ?case by simp
next
  case (Cons FOV names)
  from Cons.prems(3) obtain r where r: "map_of T FOV = Some r"
    by (metis (no_types, opaque_lifting) list.set_intros(1) map_of_eq_None_iff
        not_None_eq set_map subsetD)
  let ?T = "table_set T FOV (shifted ox oy oz)"
  have step: "reset_origin_step T ox oy oz FOV = Inr ?T"
    using Cons.prems(1) r by (rule reset_origin_step_eq)
  have d: "distinct (map fst ?T)" and s: "set names \<subseteq> set (map fst ?T)"
    using Cons.prems by (simp_all add: fst_table_set)
  have n: "distinct names" and notin: "FOV \<notin> set names"
    using Cons.prems(2) by simp_all
  have "reset_origin_loop T ox oy oz (FOV # names) = reset_origin_loop ?T ox oy oz names"
    by (simp add: step)
  also have "\<dots> = Inr (map (\<lambda>(n, r). if n \<in> set names then (n, shifted ox oy oz r)
                                 else (n, r)) ?T)"
    by (rule Cons.IH [OF d n s])
  also have "map (\<lambda>(n, r). if n \<in> set names then (n, shifted ox oy oz r) else (n, r)) ?T
           = map (\<lambda>(n, r). if n \<in> set (FOV # names) then (n, shifted ox oy oz r)
                            else (n, r)) T"
    using notin by (auto simp: table_set_def)
  finally show ?case .
qed

lemma reset_origin_eq:
  assumes "T \<noteq> []" and "distinct (obs_names T)"
  shows "reset_origin T =
           Inr (map (\<lambda>(n, r). (n, shifted
                  (Min (set (map (\<lambda>(n, r). x_micrometer r) T)))
                  (Min (set (map (\<lambda>(n, r). y_micrometer r) T)))
                  (Min (set (map (\<lambda>(n, r). z_micrometer r) T))) r)) T)"
proof -
  have "reset_origin_loop T ox oy oz (obs_names T)
          = Inr (map (\<lambda>(n, r). (n, shifted ox oy oz r)) T)" for ox oy oz
  proof -
    have "reset_origin_loop T ox oy oz (obs_names T)
          = Inr (map (\<lambda>(n, r). if n \<in> set (obs_names T) then (n, shifted ox oy oz r)
                               else (n, r)) T)"
      using assms(2) unfolding obs_names_def by (intro reset_origin_loop_eq) simp_all
    also have "map (\<lambda>(n, r). if n \<in> set (obs_names T) then (n, shifted ox oy oz r)
                               else (n, r)) T
             = map (\<lambda>(n, r). (n, shifted ox oy oz r)) T"
    proof (rule map_cong [OF refl])
      fix a assume "a \<in> set T"
      then have "fst a \<in> set (obs_names T)" by (simp add: obs_names_def)
      then show "(case a of (n, r) \<Rightarrow> if n \<in> set (obs_names T)
                    then (n, shifted ox oy oz r) else (n, r))
               = (case a of (n, r) \<Rightarrow> (n, shifted ox oy oz r))"
        by (cases a) simp
    qed
    finally show ?thesis .
  qed
  then show ?thesis
    using assms(1) by (simp add: reset_origin_def py_min_Min Let_def)
qed

lemma Min_shifted_column:
  fixes f :: "'b \<Rightarrow> real"
  assumes "T \<noteq> []"
  shows "Min (set (map (\<lambda>a. f a - Min (set (map f T))) T)) = 0"
    and "\<forall>a \<in> set T. 0 \<le> f a - Min (set (map f T))"
proof -
  let ?m = "Min (set (map f T))"
  have fin: "finite (set (map f T))" and ne: "set (map f T) \<noteq> {}"
    using assms by simp_all
  from Min_in [OF fin ne] obtain a where a: "a \<in> set T" and fa: "f a = ?m"
    by auto
  show ge: "\<forall>a \<in> set T. 0 \<le> f a - ?m"
    using Min_le [OF fin] by auto
  show "Min (set (map (\<lambda>a. f a - ?m) T)) = 0"
  proof (rule Min_eqI)
    show "finite (set (map (\<lambda>a. f a - ?m) T))" by simp
    show "0 \<le> y" if "y \<in> set (map (\<lambda>a. f a - ?m) T)" for y
      using that ge by auto
    show "0 \<in> set (map (\<lambda>a. f a - ?m) T)"
      using a fa by (auto intro!: image_eqI [where x = a])
  qed
qed

lemma zero_origin_shifted:
  assumes "T \<noteq> []"
  shows "zero_origin (map (\<lambda>(n, r). (n, shifted
                  (Min (set (map (\<lambda>(n, r). x_micrometer r) T)))
                  (Min (set (map (\<lambda>(n, r). y_micrometer r) T)))
                  (Min (set (map (\<lambda>(n, r). z_micrometer r) T))) r)) T)"
  using Min_shifted_column [OF assms, of "\<lambda>(n, r). x_micrometer r"]
        Min_shifted_column [OF assms, of "\<lambda>(n, r). y_micrometer r"]
        Min_shifted_column [OF assms, of "\<lambda>(n, r). z_micrometer r"]
  by (simp add: zero_origin_def shifted_def comp_def case_prod_unfold)

lemma zero_origin_rename:
  "zero_origin (map (\<lambda>(n, r). (f n, r)) T) = zero_origin T"
  by (simp add: zero_origin_def comp_def case_prod_unfold)

lemma reset_origin_zero_origin:
  assumes "T \<noteq> []" and "distinct (obs_names T)"
  shows "\<exists>T'. reset_origin T = Inr T' \<and> obs_names T' = obs_names T \<and> zero_origin T'"
proof -
  let ?T' = "map (\<lambda>(n, r). (n, shifted
                  (Min (set (map (\<lambda>(n, r). x_micrometer r) T)))
                  (Min (set (map (\<lambda>(n, r). y_micrometer r) T)))
                  (Min (set (map (\<lambda>(n, r). z_micrometer r) T))) r)) T"
  have "reset_origin T = Inr ?T'" using assms by (rule reset_origin_eq)
  moreover have "obs_names ?T' = obs_names T"
    by (simp add: obs_names_def comp_def case_prod_unfold)
  moreover have "zero_origin ?T'" using assms(1) by (rule zero_origin_shifted)
  ultimately show ?thesis by blast
qed

text \<open>
  Claim C3, amended. On a table that has rows, with unique row names, \<open>reset_origin\<close>
  returns a table with the same row names in which the least position over the rows is
  zero on each of the X, Y and Z axes and no position is negative; so do
  \<open>prepare_FOV_ROI_table\<close> (one row per row of the dataframe, the index of the
  dataframe being unique) and \<open>prepare_well_ROI_table\<close> (a single row) on a dataframe
  that has rows. The uniqueness of the row names is needed, as the table with a
  repeated row name at the end of this section shows.
\<close>

theorem origin_normalization_zero_origin:
  "(T \<noteq> [] \<and> distinct (obs_names T) \<longrightarrow>
      (\<exists>T'. reset_origin T = Inr T' \<and> obs_names T' = obs_names T \<and> zero_origin T'))
   \<and> (df \<noteq> [] \<and> distinct (map fst df) \<longrightarrow>
      (\<exists>T'. prepare_FOV_ROI_table df = Inr T' \<and> length T' = length df \<and> zero_origin T'))
   \<and> (dfw \<noteq> [] \<longrightarrow>
      (\<exists>T'. prepare_well_ROI_table dfw = Inr T' \<and> length T' = 1 \<and> zero_origin T'))"
proof (intro conjI impI)
  assume "T \<noteq> [] \<and> distinct (obs_names T)"
  then show "\<exists>T'. reset_origin T = Inr T' \<and> obs_names T' = obs_names T \<and> zero_origin T'"
    by (simp add: reset_origin_zero_origin)
next
  assume a: "df \<noteq> [] \<and> distinct (map fst df)"
  let ?df_roi = "map (\<lambda>(idx, d). (idx,
            \<lparr>x_micrometer = df_x_micrometer d,
             y_micrometer = df_y_micrometer d,
             z_micrometer = df_z_micrometer d,
             len_x_micrometer = of_int (x_pixel d) * pixel_size_x d,
             len_y_micrometer = of_int (y_pixel d) * pixel_size_y d,
             len_z_micrometer = of_int (z_pixel d) * pixel_size_z d,
             x_micrometer_original = df_x_micrometer_original d,
             y_micrometer_original = df_y_micrometer_original d\<rparr>)) df"
  have ne: "?df_roi \<noteq> []" using a by simp
  have "obs_names ?df_roi = map fst df"
    by (simp add: obs_names_def comp_def case_prod_unfold)
  with a have di: "distinct (obs_names ?df_roi)" by simp
  from reset_origin_zero_origin [OF ne di] obtain adata
    where r: "reset_origin ?df_roi = Inr adata"
      and n: "obs_names adata = obs_names ?df_roi" and z: "zero_origin adata"
    by blast
  have len: "length adata = length df"
    using arg_cong [where f = length, OF n] by (simp add: obs_names_def)
  have "prepare_FOV_ROI_table df = Inr (map (\<lambda>(n, r). (''FOV_'' @ n, r)) adata)"
    by (simp add: prepare_FOV_ROI_table_def r del: append.simps)
  moreover have "zero_origin (map (\<lambda>(n, r). (''FOV_'' @ n, r)) adata)"
    using z by (simp only: zero_origin_rename)
  ultimately show "\<exists>T'. prepare_FOV_ROI_table df = Inr T' \<and> length T' = length df
                     \<and> zero_origin T'"
    using len by auto
next
  assume "dfw \<noteq> []"
  then obtain idx d rest where dfw: "dfw = (idx, d) # rest"
    by (cases dfw) auto
  define row :: roi_row where "row =
     (let max_x = (\<lambda>d. df_x_micrometer d + of_int (x_pixel d) * pixel_size_x d);
          max_y = (\<lambda>d. df_y_micrometer d + of_int (y_pixel d) * pixel_size_y d);
          max_z = (\<lambda>d. df_z_micrometer d + of_int (z_pixel d) * pixel_size_z d);
          min_min_x = fold min (map (\<lambda>(i, d). df_x_micrometer d) rest) (df_x_micrometer d);
          min_min_y = fold min (map (\<lambda>(i, d). df_y_micrometer d) rest) (df_y_micrometer d);
          min_min_z = fold min (map (\<lambda>(i, d). df_z_micrometer d) rest) (df_z_micrometer d);
          max_max_x = fold max (map (\<lambda>(i, d). max_x d) rest) (max_x d);
          max_max_y = fold max (map (\<lambda>(i, d). max_y d) rest) (max_y d);
          max_max_z = fold max (map (\<lambda>(i, d). max_z d) rest) (max_z d)
      in \<lparr>x_micrometer = min_min_x,
          y_micrometer = min_min_y,
          z_micrometer = min_min_z,
          len_x_micrometer = max_max_x - min_min_x,
          len_y_micrometer = max_max_y - min_min_y,
          len_z_micrometer = max_max_z - min_min_z\<rparr>)"
  have p: "prepare_well_ROI_table dfw =
             (case reset_origin [(idx, row)] of
                Inl e \<Rightarrow> Inl e
              | Inr adata \<Rightarrow> Inr (map (\<lambda>(n, r). (''well_'' @ n, r)) adata))"
    apply (simp only: prepare_well_ROI_table_def dfw row_def Let_def list.case prod.case)
    done
  have "[(idx, row)] \<noteq> []" and "distinct (obs_names [(idx, row)])"
    by (simp_all add: obs_names_def)
  from reset_origin_zero_origin [OF this] obtain adata
    where r: "reset_origin [(idx, row)] = Inr adata"
      and n: "obs_names adata = obs_names [(idx, row)]" and z: "zero_origin adata"
    by blast
  have len: "length adata = 1"
    using arg_cong [where f = length, OF n] by (simp add: obs_names_def)
  have "prepare_well_ROI_table dfw = Inr (map (\<lambda>(n, r). (''well_'' @ n, r)) adata)"
    by (simp add: p r del: append.simps)
  moreover have "zero_origin (map (\<lambda>(n, r). (''well_'' @ n, r)) adata)"
    using z by (simp only: zero_origin_rename)
  ultimately show "\<exists>T'. prepare_well_ROI_table dfw = Inr T' \<and> length T' = 1
                     \<and> zero_origin T'"
    using len by auto
qed


theorem origin_normalization_zero_origin_witness:
  "([(''1'', \<lparr>x_micrometer = 10, y_micrometer = 5, z_micrometer = 0,
          len_x_micrometer = 2, len_y_micrometer = 2, len_z_micrometer = 1\<rparr>),
       (''2'', \<lparr>x_micrometer = 12, y_micrometer = 5, z_micrometer = 0,
          len_x_micrometer = 2, len_y_micrometer = 2, len_z_micrometer = (1::real)\<rparr>)] \<noteq> []
    \<and> distinct (obs_names [(''1'', \<lparr>x_micrometer = 10, y_micrometer = 5, z_micrometer = 0,
          len_x_micrometer = 2, len_y_micrometer = 2, len_z_micrometer = 1\<rparr>),
       (''2'', \<lparr>x_micrometer = 12, y_micrometer = 5, z_micrometer = 0,
          len_x_micrometer = 2, len_y_micrometer = 2, len_z_micrometer = (1::real)\<rparr>)])
    \<and> (\<exists>T'. reset_origin [(''1'', \<lparr>x_micrometer = 10, y_micrometer = 5, z_micrometer = 0,
          len_x_micrometer = 2, len_y_micrometer = 2, len_z_micrometer = 1\<rparr>),
       (''2'', \<lparr>x_micrometer = 12, y_micrometer = 5, z_micrometer = 0,
          len_x_micrometer = 2, len_y_micrometer = 2, len_z_micrometer = (1::real)\<rparr>)] = Inr T'
          \<and> obs_names T' = obs_names [(''1'', \<lparr>x_micrometer = 10, y_micrometer = 5, z_micrometer = 0,
          len_x_micrometer = 2, len_y_micrometer = 2, len_z_micrometer = 1\<rparr>),
       (''2'', \<lparr>x_micrometer = 12, y_micrometer = 5, z_micrometer = 0,
          len_x_micrometer = 2, len_y_micrometer = 2, len_z_micrometer = (1::real)\<rparr>)] \<and> zero_origin T'))
   \<and> ([(''1'', \<lparr>df_x_micrometer = 10, df_y_micrometer = 5, df_z_micrometer = 0,
          x_pixel = 4, y_pixel = 4, z_pixel = 1,
          pixel_size_x = 1 / 2, pixel_size_y = 1 / 2, pixel_size_z = 1,
          df_x_micrometer_original = 10, df_y_micrometer_original = (5::real)\<rparr>),
       (''2'', \<lparr>df_x_micrometer = 12, df_y_micrometer = 5, df_z_micrometer = 0,
          x_pixel = 4, y_pixel = 4, z_pixel = 1,
          pixel_size_x = 1 / 2, pixel_size_y = 1 / 2, pixel_size_z = 1,
          df_x_micrometer_original = 12, df_y_micrometer_original = (5::real)\<rparr>)] \<noteq> []
    \<and> distinct (map fst [(''1'', \<lparr>df_x_micrometer = 10, df_y_micrometer = 5, df_z_micrometer = 0,
          x_pixel = 4, y_pixel = 4, z_pixel = 1,
          pixel_size_x = 1 / 2, pixel_size_y = 1 / 2, pixel_size_z = 1,
          df_x_micrometer_original = 10, df_y_micrometer_original = (5::real)\<rparr>),
       (''2'', \<lparr>df_x_micrometer = 12, df_y_micrometer = 5, df_z_micrometer = 0,
          x_pixel = 4, y_pixel = 4, z_pixel = 1,
          pixel_size_x = 1 / 2, pixel_size_y = 1 / 2, pixel_size_z = 1,
          df_x_micrometer_original = 12, df_y_micrometer_original = (5::real)\<rparr>)])
    \<and> (\<exists>T'. prepare_FOV_ROI_table [(''1'', \<lparr>df_x_micrometer = 10, df_y_micrometer = 5, df_z_micrometer = 0,
          x_pixel = 4, y_pixel = 4, z_pixel = 1,
          pixel_size_x = 1 / 2, pixel_size_y = 1 / 2, pixel_size_z = 1,
          df_x_micrometer_original = 10, df_y_micrometer_original = (5::real)\<rparr>),
       (''2'', \<lparr>df_x_micrometer = 12, df_y_micrometer = 5, df_z_micrometer = 0,
          x_pixel = 4, y_pixel = 4, z_pixel = 1,
          pixel_size_x = 1 / 2, pixel_size_y = 1 / 2, pixel_size_z = 1,
          df_x_micrometer_original = 12, df_y_micrometer_original = (5::real)\<rparr>)] = Inr T'
          \<and> length T' = length [(''1'', \<lparr>df_x_micrometer = 10, df_y_micrometer = 5, df_z_micrometer = 0,
          x_pixel = 4, y_pixel = 4, z_pixel = 1,
          pixel_size_x = 1 / 2, pixel_size_y = 1 / 2, pixel_size_z = 1,
          df_x_micrometer_original = 10, df_y_micrometer_original = (5::real)\<rparr>),
       (''2'', \<lparr>df_x_micrometer = 12, df_y_micrometer = 5, df_z_micrometer = 0,
          x_pixel = 4, y_pixel = 4, z_pixel = 1,
          pixel_size_x = 1 / 2, pixel_size_y = 1 / 2, pixel_size_z = 1,
          df_x_micrometer_original = 12, df_y_micrometer_original = (5::real)\<rparr>)] \<and> zero_origin T')
    \<and> (\<exists>T'. prepare_well_ROI_table [(''1'', \<lparr>df_x_micrometer = 10, df_y_micrometer = 5, df_z_micrometer = 0,
          x_pixel = 4, y_pixel = 4, z_pixel = 1,
          pixel_size_x = 1 / 2, pixel_size_y = 1 / 2, pixel_size_z = 1,
          df_x_micrometer_original = 10, df_y_micrometer_original = (5::real)\<rparr>),
       (''2'', \<lparr>df_x_micrometer = 12, df_y_micrometer = 5, df_z_micrometer = 0,
          x_pixel = 4, y_pixel = 4, z_pixel = 1,
          pixel_size_x = 1 / 2, pixel_size_y = 1 / 2, pixel_size_z = 1,
          df_x_micrometer_original = 12, df_y_micrometer_original = (5::real)\<rparr>)] = Inr T'
          \<and> length T' = 1 \<and> zero_origin T'))"
  using origin_normalization_zero_origin
    [of "[(''1'', \<lparr>x_micrometer = 10, y_micrometer = 5, z_micrometer = 0,
          len_x_micrometer = 2, len_y_micrometer = 2, len_z_micrometer = 1\<rparr>),
       (''2'', \<lparr>x_micrometer = 12, y_micrometer = 5, z_micrometer = 0,
          len_x_micrometer = 2, len_y_micrometer = 2, len_z_micrometer = (1::real)\<rparr>)]"
        "[(''1'', \<lparr>df_x_micrometer = 10, df_y_micrometer = 5, df_z_micrometer = 0,
          x_pixel = 4, y_pixel = 4, z_pixel = 1,
          pixel_size_x = 1 / 2, pixel_size_y = 1 / 2, pixel_size_z = 1,
          df_x_micrometer_original = 10, df_y_micrometer_original = (5::real)\<rparr>),
       (''2'', \<lparr>df_x_micrometer = 12, df_y_micrometer = 5, df_z_micrometer = 0,
          x_pixel = 4, y_pixel = 4, z_pixel = 1,
          pixel_size_x = 1 / 2, pixel_size_y = 1 / 2, pixel_size_z = 1,
          df_x_micrometer_original = 12, df_y_micrometer_original = (5::real)\<rparr>)]"
        "[(''1'', \<lparr>df_x_micrometer = 10, df_y_micrometer = 5, df_z_micrometer = 0,
          x_pixel = 4, y_pixel = 4, z_pixel = 1,
          pixel_size_x = 1 / 2, pixel_size_y = 1 / 2, pixel_size_z = 1,
          df_x_micrometer_original = 10, df_y_micrometer_original = (5::real)\<rparr>),
       (''2'', \<lparr>df_x_micrometer = 12, df_y_micrometer = 5, df_z_micrometer = 0,
          x_pixel = 4, y_pixel = 4, z_pixel = 1,
          pixel_size_x = 1 / 2, pixel_size_y = 1 / 2, pixel_size_z = 1,
          df_x_micrometer_original = 12, df_y_micrometer_original = (5::real)\<rparr>)]"]
  by (simp add: obs_names_def)

text \<open>
  Claim C3 as stated fails on a table with a repeated row name. The loop of
  \<open>reset_origin\<close> runs once per row name, and each run reads the first row of that name
  and writes all rows of that name: with two rows named \<open>1\<close> at \<open>x = 10\<close> and \<open>x = 12\<close>
  (origin \<open>(10, 5, 0)\<close>) the first run sets both rows to \<open>(0, 0, 0)\<close> and the second run
  subtracts the origin again. Both rows end at \<open>(-10, -5, 0)\<close>: the minimum is not zero
  and positions are negative.
\<close>

theorem reset_origin_repeated_name:
  "reset_origin
     [(''1'', \<lparr>x_micrometer = 10, y_micrometer = 5, z_micrometer = 0,
          len_x_micrometer = 2, len_y_micrometer = 2, len_z_micrometer = (1::real)\<rparr>),
      (''1'', \<lparr>x_micrometer = 12, y_micrometer = 5, z_micrometer = 0,
          len_x_micrometer = 2, len_y_micrometer = 2, len_z_micrometer = (1::real)\<rparr>)] =
   Inr [(''1'', \<lparr>x_micrometer = - 10, y_micrometer = - 5, z_micrometer = 0,
          len_x_micrometer = 2, len_y_micrometer = 2, len_z_micrometer = (1::real)\<rparr>),
        (''1'', \<lparr>x_micrometer = - 10, y_micrometer = - 5, z_micrometer = 0,
          len_x_micrometer = 2, len_y_micrometer = 2, len_z_micrometer = (1::real)\<rparr>)]
   \<and> \<not> zero_origin
     [(''1'', \<lparr>x_micrometer = - 10, y_micrometer = - 5, z_micrometer = 0,
          len_x_micrometer = 2, len_y_micrometer = 2, len_z_micrometer = (1::real)\<rparr>),
      (''1'', \<lparr>x_micrometer = - 10, y_micrometer = - 5, z_micrometer = 0,
          len_x_micrometer = 2, len_y_micrometer = 2, len_z_micrometer = (1::real)\<rparr>)]"
  by (simp add: reset_origin_def reset_origin_step_def table_get_def table_set_def
        obs_names_def zero_origin_def)

section \<open>Properties of the grid of ROIs\<close>

lemma map_upt_Suc_shift: "map f [0..<Suc n] = f 0 # map (\<lambda>k. f (Suc k)) [0..<n]"
proof -
  have "[0..<Suc n] = 0 # map Suc [0..<n]"
    by (simp only: upt_conv_Cons [OF zero_less_Suc] map_Suc_upt)
  then show ?thesis by (simp only: list.map map_map comp_def)
qed

lemma map_upt_add_shift:
  "map f [0..<a + b] = map f [0..<a] @ map (\<lambda>k. f (a + k)) [0..<b]"
proof -
  have "[0..<a + b] = [0..<a] @ [a..<a + b]"
    by (rule upt_add_eq_append) simp
  also have "[a..<a + b] = map (\<lambda>k. a + k) [0..<b]"
    using map_add_upt [of a b] by (simp add: add.commute)
  finally show ?thesis by (simp only: map_append map_map comp_def)
qed

lemma grid_inner_fold:
  "foldl (grid_inner P shape_x len_x start_z len_z start_y tmp_len_y) (X, names, c) ixs =
     (X @ map (\<lambda>ind_x. grid_ROI P start_z len_z start_y tmp_len_y (ind_x * len_x)
                 (min shape_x (ind_x * len_x + len_x) - ind_x * len_x)) ixs,
      names @ map (\<lambda>k. ''ROI_'' @ py_str (c + 1 + int k)) [0..<length ixs],
      c + int (length ixs))"
proof (induction ixs arbitrary: X names c)
  case Nil
  then show ?case by simp
next
  case (Cons ind_x ixs)
  let ?f = "grid_inner P shape_x len_x start_z len_z start_y tmp_len_y"
  let ?row = "\<lambda>ind_x. grid_ROI P start_z len_z start_y tmp_len_y (ind_x * len_x)
                 (min shape_x (ind_x * len_x + len_x) - ind_x * len_x)"
  have step: "?f (X, names, c) ind_x
                = (X @ [?row ind_x], names @ [''ROI_'' @ py_str (c + 1)], c + 1)"
    by (simp add: grid_inner_def Let_def)
  have "foldl ?f (X, names, c) (ind_x # ixs)
          = foldl ?f (X @ [?row ind_x], names @ [''ROI_'' @ py_str (c + 1)], c + 1) ixs"
    by (simp only: foldl_Cons step)
  also have "\<dots> = ((X @ [?row ind_x]) @ map ?row ixs,
      (names @ [''ROI_'' @ py_str (c + 1)])
        @ map (\<lambda>k. ''ROI_'' @ py_str (c + 1 + 1 + int k)) [0..<length ixs],
      c + 1 + int (length ixs))"
    by (rule Cons.IH)
  also have "\<dots> = (X @ map ?row (ind_x # ixs),
      names @ map (\<lambda>k. ''ROI_'' @ py_str (c + 1 + int k)) [0..<length (ind_x # ixs)],
      c + int (length (ind_x # ixs)))"
    by (simp add: map_upt_Suc_shift add.assoc del: upt_Suc append.simps)
  finally show ?case .
qed

lemma grid_outer_fold:
  "foldl (grid_outer P shape_y shape_x grid_size_x len_y len_x start_z len_z) (X, names, c) iys =
     (X @ concat (map (\<lambda>ind_y. map (\<lambda>ind_x.
              grid_ROI P start_z len_z (ind_y * len_y)
                (min shape_y (ind_y * len_y + len_y) - ind_y * len_y)
                (ind_x * len_x) (min shape_x (ind_x * len_x + len_x) - ind_x * len_x))
              (py_range grid_size_x)) iys),
      names @ map (\<lambda>k. ''ROI_'' @ py_str (c + 1 + int k))
                [0..<length iys * length (py_range grid_size_x)],
      c + int (length iys * length (py_range grid_size_x)))"
proof (induction iys arbitrary: X names c)
  case Nil
  then show ?case by simp
next
  case (Cons ind_y iys)
  let ?g = "grid_outer P shape_y shape_x grid_size_x len_y len_x start_z len_z"
  let ?n = "length (py_range grid_size_x)"
  let ?row = "\<lambda>ind_y ind_x. grid_ROI P start_z len_z (ind_y * len_y)
                (min shape_y (ind_y * len_y + len_y) - ind_y * len_y)
                (ind_x * len_x) (min shape_x (ind_x * len_x + len_x) - ind_x * len_x)"
  have step: "?g (X, names, c) ind_y
                = (X @ map (?row ind_y) (py_range grid_size_x),
                   names @ map (\<lambda>k. ''ROI_'' @ py_str (c + 1 + int k)) [0..<?n],
                   c + int ?n)"
    by (simp only: grid_outer_def Let_def grid_inner_fold)
  have "foldl ?g (X, names, c) (ind_y # iys)
          = foldl ?g (X @ map (?row ind_y) (py_range grid_size_x),
                   names @ map (\<lambda>k. ''ROI_'' @ py_str (c + 1 + int k)) [0..<?n],
                   c + int ?n) iys"
    by (simp only: foldl_Cons step)
  also have "\<dots> = ((X @ map (?row ind_y) (py_range grid_size_x))
        @ concat (map (\<lambda>ind_y. map (?row ind_y) (py_range grid_size_x)) iys),
      (names @ map (\<lambda>k. ''ROI_'' @ py_str (c + 1 + int k)) [0..<?n])
        @ map (\<lambda>k. ''ROI_'' @ py_str (c + int ?n + 1 + int k)) [0..<length iys * ?n],
      c + int ?n + int (length iys * ?n))"
    by (rule Cons.IH)
  also have "\<dots> = (X @ concat (map (\<lambda>ind_y. map (?row ind_y) (py_range grid_size_x))
                                 (ind_y # iys)),
      names @ map (\<lambda>k. ''ROI_'' @ py_str (c + 1 + int k)) [0..<length (ind_y # iys) * ?n],
      c + int (length (ind_y # iys) * ?n))"
    by (simp add: map_upt_add_shift add.assoc add.commute add.left_commute
        del: upt_Suc append.simps)
  finally show ?case .
qed

lemma ceil_div_ge:
  assumes "0 < (g::int)"
  shows "s \<le> g * \<lceil>real_of_int s / real_of_int g\<rceil>"
proof -
  let ?c = "\<lceil>real_of_int s / real_of_int g\<rceil>"
  have g: "0 < real_of_int g" using assms by simp
  have "real_of_int s = real_of_int s / real_of_int g * real_of_int g"
    using g by simp
  also have "\<dots> \<le> of_int ?c * real_of_int g"
    using g by (intro mult_right_mono le_of_int_ceiling) simp
  also have "\<dots> = real_of_int (g * ?c)" by (simp add: mult.commute)
  finally show ?thesis by (simp only: of_int_le_iff)
qed

lemma cell_size_pos:
  assumes "0 < (g::int)" and "0 \<le> p" and "p < s" and "s \<le> g * L"
  shows "0 < L"
proof (rule ccontr)
  assume "\<not> 0 < L"
  then have "L \<le> 0" by simp
  with assms(1) have "g * L \<le> 0" by (simp add: mult_le_0_iff)
  with assms(2-4) show False by linarith
qed

lemma cell_index_unique:
  assumes "0 < (L::int)" and "i * L \<le> p" and "p < i * L + L"
  shows "i = p div L"
proof -
  have "p = L * i + (p - i * L)" by (simp add: mult.commute)
  moreover have "0 \<le> p - i * L" and "p - i * L < L" using assms(2,3) by simp_all
  ultimately show ?thesis by (metis int_div_pos_eq)
qed

lemma cell_index_bound:
  assumes "0 < (L::int)" and "0 \<le> p" and "p < g * L"
  shows "p div L < g" and "0 \<le> p div L" and "p div L * L \<le> p" and "p < p div L * L + L"
proof -
  have m: "0 \<le> p mod L" "p mod L < L" using assms(1) by simp_all
  have d: "p = p div L * L + p mod L" by simp
  show le: "p div L * L \<le> p" using d m(1) by linarith
  show "p < p div L * L + L" using d m(2) by linarith
  show "0 \<le> p div L" using assms(1,2) by (simp add: pos_imp_zdiv_nonneg_iff)
  from le assms(3) have "p div L * L < g * L" by linarith
  then show "p div L < g" using assms(1) by (simp only: mult_less_cancel_right_pos)
qed

lemma cell_cover:
  assumes "0 < (g::int)" and "0 \<le> p" and "p < s" and "s \<le> g * L"
  shows "\<exists>!i. 0 \<le> i \<and> i < g \<and> i * L \<le> p \<and> p < min s (i * L + L)"
proof -
  have L: "0 < L" using assms by (rule cell_size_pos)
  have pg: "p < g * L" using assms(3,4) by linarith
  show ?thesis
  proof (rule ex1I [of _ "p div L"])
    show "0 \<le> p div L \<and> p div L < g \<and> p div L * L \<le> p \<and> p < min s (p div L * L + L)"
      using cell_index_bound [OF L assms(2) pg] assms(3) by simp
    show "i = p div L" if "0 \<le> i \<and> i < g \<and> i * L \<le> p \<and> p < min s (i * L + L)" for i
      using that by (intro cell_index_unique [OF L]) simp_all
  qed
qed

lemma cell_nonempty:
  assumes "0 < (g::int)" and "(g - 1) * L < s" and "s \<le> g * L" and "0 \<le> i" and "i < g"
  shows "0 < min s (i * L + L) - i * L"
proof -
  have "(g - 1) * L < g * L" using assms(2,3) by linarith
  then have L: "0 < L" by (simp add: left_diff_distrib)
  have "i \<le> g - 1" using assms(5) by simp
  then have "i * L \<le> (g - 1) * L" using L by (simp only: mult_le_cancel_right_pos)
  with assms(2) have "i * L < s" by linarith
  with L show ?thesis by simp
qed

lemma py_range_nonempty: "0 < n \<Longrightarrow> py_range n \<noteq> []"
  by (simp add: py_range_def)

lemma length_py_range: "length (py_range n) = nat n"
  by (simp add: py_range_def)

lemma set_py_range: "set (py_range n) = {i. 0 \<le> i \<and> i < n}"
proof -
  have "i \<in> int ` {0..<nat n} \<longleftrightarrow> 0 \<le> i \<and> i < n" for i
  proof
    assume "i \<in> int ` {0..<nat n}"
    then show "0 \<le> i \<and> i < n" by auto
  next
    assume "0 \<le> i \<and> i < n"
    then have "nat i \<in> {0..<nat n}" and "i = int (nat i)" by simp_all
    then show "i \<in> int ` {0..<nat n}" by (rule_tac image_eqI)
  qed
  then show ?thesis by (auto simp: py_range_def)
qed

lemma get_image_grid_ROIs_eq:
  assumes "0 < gy" and "0 < gx"
  shows "get_image_grid_ROIs (sz, sy, sx) P (Some (gy, gx)) =
           Inr (zip (map (\<lambda>k. ''ROI_'' @ py_str (1 + int k)) [0..<nat gy * nat gx])
                  (concat (map (\<lambda>ind_y. map (\<lambda>ind_x.
                     grid_cell (sz, sy, sx) P
                       \<lceil>real_of_int sy / real_of_int gy\<rceil>
                       \<lceil>real_of_int sx / real_of_int gx\<rceil> ind_y ind_x)
                     (py_range gx)) (py_range gy))))"
proof -
  let ?ly = "\<lceil>real_of_int sy / real_of_int gy\<rceil>"
  let ?lx = "\<lceil>real_of_int sx / real_of_int gx\<rceil>"
  let ?X = "concat (map (\<lambda>ind_y. map (\<lambda>ind_x.
              grid_cell (sz, sy, sx) P ?ly ?lx ind_y ind_x) (py_range gx)) (py_range gy))"
  obtain iy iys where iys: "py_range gy = iy # iys"
    using py_range_nonempty [OF assms(1)] by (cases "py_range gy") auto
  obtain ix ixs where ixs: "py_range gx = ix # ixs"
    using py_range_nonempty [OF assms(2)] by (cases "py_range gx") auto
  have ne: "?X \<noteq> []" by (simp add: iys ixs)
  have fold: "foldl (grid_outer P sy sx gx ?ly ?lx 0 sz) ([], [], 0) (py_range gy)
                = (?X, map (\<lambda>k. ''ROI_'' @ py_str (1 + int k)) [0..<nat gy * nat gx],
                   int (nat gy * nat gx))"
    by (simp add: grid_outer_fold grid_cell_def length_py_range del: append.simps)
  show ?thesis
    using assms ne
    by (simp add: get_image_grid_ROIs_def py_ceil_div_def fold del: append.simps)
qed

lemma covers_grid_cell:
  assumes "0 < pixels_Y" and "0 < pixels_X"
  shows "covers (pixels_Z, pixels_Y, pixels_X)
           (grid_cell (sz, sy, sx) (pixels_Z, pixels_Y, pixels_X) ly lx iy ix) p q
         \<longleftrightarrow> iy * ly \<le> p \<and> p < min sy (iy * ly + ly)
             \<and> ix * lx \<le> q \<and> q < min sx (ix * lx + lx)"
proof -
  have le: "real_of_int a * c \<le> real_of_int b * c \<longleftrightarrow> a \<le> b" if "0 < c" for a b c
    using that by simp
  have less: "real_of_int b * c < real_of_int a * c + real_of_int (m - a) * c \<longleftrightarrow> b < m"
    if "0 < c" for a b m c
  proof -
    have "real_of_int a * c + real_of_int (m - a) * c = real_of_int m * c"
      by (simp add: algebra_simps)
    then show ?thesis using that by simp
  qed
  show ?thesis
    by (simp add: covers_def grid_cell_def grid_ROI_def le [OF assms(1)] le [OF assms(2)]
        less [OF assms(1)] less [OF assms(2)] del: of_int_mult of_int_diff of_int_min)
qed


text \<open>
  Claim C5, as the code has it. For a grid with positive sizes and positive pixel
  sizes, \<open>get_image_grid_ROIs\<close> returns \<open>grid_y * grid_x\<close> rows named
  \<open>ROI_1\<close>, \<open>ROI_2\<close>, ... in row-major order (Y outer, X inner), the nominal cell
  size of an axis being the ceiling of the extent divided by the grid size. Every pixel
  of the Y-X extent lies in exactly one cell, so no pixel is uncovered and no two cells
  overlap; Z is not partitioned. No cell is empty when, on both axes, the last cell
  starts inside the extent: \<open>(grid - 1) * ceil (shape / grid) < shape\<close>.
\<close>

theorem get_image_grid_ROIs_tiling:
  assumes "0 < gy" and "0 < gx" and "0 < pixels_Y" and "0 < pixels_X"
  shows "get_image_grid_ROIs (sz, sy, sx) (pixels_Z, pixels_Y, pixels_X) (Some (gy, gx)) =
           Inr (zip (map (\<lambda>k. ''ROI_'' @ py_str (1 + int k)) [0..<nat (gy * gx)])
                  (concat (map (\<lambda>ind_y. map (\<lambda>ind_x.
                     grid_cell (sz, sy, sx) (pixels_Z, pixels_Y, pixels_X)
                       \<lceil>real_of_int sy / real_of_int gy\<rceil>
                       \<lceil>real_of_int sx / real_of_int gx\<rceil> ind_y ind_x)
                     (py_range gx)) (py_range gy))))
         \<and> (\<forall>p q. 0 \<le> p \<and> p < sy \<and> 0 \<le> q \<and> q < sx \<longrightarrow>
               (\<exists>!c. 0 \<le> fst c \<and> fst c < gy \<and> 0 \<le> snd c \<and> snd c < gx \<and>
                  covers (pixels_Z, pixels_Y, pixels_X)
                    (grid_cell (sz, sy, sx) (pixels_Z, pixels_Y, pixels_X)
                       \<lceil>real_of_int sy / real_of_int gy\<rceil>
                       \<lceil>real_of_int sx / real_of_int gx\<rceil> (fst c) (snd c)) p q))
         \<and> (\<forall>ind_y ind_x.
               z_micrometer (grid_cell (sz, sy, sx) (pixels_Z, pixels_Y, pixels_X)
                       \<lceil>real_of_int sy / real_of_int gy\<rceil>
                       \<lceil>real_of_int sx / real_of_int gx\<rceil> ind_y ind_x) = 0 \<and>
               len_z_micrometer (grid_cell (sz, sy, sx) (pixels_Z, pixels_Y, pixels_X)
                       \<lceil>real_of_int sy / real_of_int gy\<rceil>
                       \<lceil>real_of_int sx / real_of_int gx\<rceil> ind_y ind_x)
                 = of_int sz * pixels_Z)
         \<and> ((gy - 1) * \<lceil>real_of_int sy / real_of_int gy\<rceil> < sy \<and>
            (gx - 1) * \<lceil>real_of_int sx / real_of_int gx\<rceil> < sx \<longrightarrow>
              (\<forall>ind_y ind_x. 0 \<le> ind_y \<and> ind_y < gy \<and> 0 \<le> ind_x \<and> ind_x < gx \<longrightarrow>
                 0 < len_y_micrometer (grid_cell (sz, sy, sx) (pixels_Z, pixels_Y, pixels_X)
                       \<lceil>real_of_int sy / real_of_int gy\<rceil>
                       \<lceil>real_of_int sx / real_of_int gx\<rceil> ind_y ind_x) \<and>
                 0 < len_x_micrometer (grid_cell (sz, sy, sx) (pixels_Z, pixels_Y, pixels_X)
                       \<lceil>real_of_int sy / real_of_int gy\<rceil>
                       \<lceil>real_of_int sx / real_of_int gx\<rceil> ind_y ind_x)))"
proof -
  let ?P = "(pixels_Z, pixels_Y, pixels_X)"
  let ?ly = "\<lceil>real_of_int sy / real_of_int gy\<rceil>"
  let ?lx = "\<lceil>real_of_int sx / real_of_int gx\<rceil>"
  let ?cell = "grid_cell (sz, sy, sx) ?P ?ly ?lx"
  have sy: "sy \<le> gy * ?ly" using assms(1) by (rule ceil_div_ge)
  have sx: "sx \<le> gx * ?lx" using assms(2) by (rule ceil_div_ge)
  have "nat gy * nat gx = nat (gy * gx)"
    using assms(1,2) by (simp add: nat_mult_distrib)
  then have rows: "get_image_grid_ROIs (sz, sy, sx) ?P (Some (gy, gx)) =
           Inr (zip (map (\<lambda>k. ''ROI_'' @ py_str (1 + int k)) [0..<nat (gy * gx)])
                  (concat (map (\<lambda>ind_y. map (\<lambda>ind_x. ?cell ind_y ind_x)
                     (py_range gx)) (py_range gy))))"
    using get_image_grid_ROIs_eq [OF assms(1,2), of sz sy sx ?P] by simp
  have cover: "\<exists>!c. 0 \<le> fst c \<and> fst c < gy \<and> 0 \<le> snd c \<and> snd c < gx \<and>
                  covers ?P (?cell (fst c) (snd c)) p q"
    if pq: "0 \<le> p \<and> p < sy \<and> 0 \<le> q \<and> q < sx" for p q
  proof -
    from cell_cover [OF assms(1) _ _ sy, of p] pq
    obtain iy where iy: "0 \<le> iy \<and> iy < gy \<and> iy * ?ly \<le> p \<and> p < min sy (iy * ?ly + ?ly)"
      and iy_unique: "\<And>i. 0 \<le> i \<and> i < gy \<and> i * ?ly \<le> p \<and> p < min sy (i * ?ly + ?ly)
                         \<Longrightarrow> i = iy"
      by blast
    from cell_cover [OF assms(2) _ _ sx, of q] pq
    obtain ix where ix: "0 \<le> ix \<and> ix < gx \<and> ix * ?lx \<le> q \<and> q < min sx (ix * ?lx + ?lx)"
      and ix_unique: "\<And>i. 0 \<le> i \<and> i < gx \<and> i * ?lx \<le> q \<and> q < min sx (i * ?lx + ?lx)
                         \<Longrightarrow> i = ix"
      by blast
    show ?thesis
    proof (rule ex1I [of _ "(iy, ix)"])
      show "0 \<le> fst (iy, ix) \<and> fst (iy, ix) < gy \<and> 0 \<le> snd (iy, ix) \<and> snd (iy, ix) < gx \<and>
              covers ?P (?cell (fst (iy, ix)) (snd (iy, ix))) p q"
        using iy ix by (simp only: fst_conv snd_conv covers_grid_cell [OF assms(3,4)])
    next
      fix c
      assume c: "0 \<le> fst c \<and> fst c < gy \<and> 0 \<le> snd c \<and> snd c < gx \<and>
                   covers ?P (?cell (fst c) (snd c)) p q"
      then have cov: "fst c * ?ly \<le> p \<and> p < min sy (fst c * ?ly + ?ly)
             \<and> snd c * ?lx \<le> q \<and> q < min sx (snd c * ?lx + ?lx)"
        by (simp only: covers_grid_cell [OF assms(3,4)])
      have "fst c = iy" using c cov by (intro iy_unique) simp
      moreover have "snd c = ix" using c cov by (intro ix_unique) simp
      ultimately show "c = (iy, ix)" by (simp add: prod_eq_iff)
    qed
  qed
  have zs: "z_micrometer (?cell ind_y ind_x) = 0 \<and>
            len_z_micrometer (?cell ind_y ind_x) = of_int sz * pixels_Z" for ind_y ind_x
    by (simp add: grid_cell_def grid_ROI_def)
  have nonempty: "0 < len_y_micrometer (?cell ind_y ind_x) \<and>
                  0 < len_x_micrometer (?cell ind_y ind_x)"
    if last: "(gy - 1) * ?ly < sy \<and> (gx - 1) * ?lx < sx"
      and ind: "0 \<le> ind_y \<and> ind_y < gy \<and> 0 \<le> ind_x \<and> ind_x < gx" for ind_y ind_x
  proof -
    have "0 < min sy (ind_y * ?ly + ?ly) - ind_y * ?ly"
      using assms(1) last sy ind by (intro cell_nonempty [of gy]) simp_all
    then have y: "0 < real_of_int (min sy (ind_y * ?ly + ?ly) - ind_y * ?ly) * pixels_Y"
      using assms(3) by (simp only: of_int_0_less_iff mult_pos_pos)
    have "0 < min sx (ind_x * ?lx + ?lx) - ind_x * ?lx"
      using assms(2) last sx ind by (intro cell_nonempty [of gx]) simp_all
    then have x: "0 < real_of_int (min sx (ind_x * ?lx + ?lx) - ind_x * ?lx) * pixels_X"
      using assms(4) by (simp only: of_int_0_less_iff mult_pos_pos)
    show ?thesis
      using x y by (simp add: grid_cell_def grid_ROI_def del: of_int_diff of_int_min of_int_mult of_int_add)
  qed
  show ?thesis
    using rows cover zs nonempty by (intro conjI allI impI) blast+
qed


theorem get_image_grid_ROIs_tiling_witness:
  "(0::int) < 2 \<and> (0::real) < 1
   \<and> get_image_grid_ROIs (1, 100, 100) (1, 1, 1) (Some (2, 2)) =
       Inr [(''ROI_1'', \<lparr>x_micrometer = 0, y_micrometer = 0, z_micrometer = 0,
          len_x_micrometer = 50, len_y_micrometer = 50, len_z_micrometer = 1,
          x_micrometer_original = 0, y_micrometer_original = 0\<rparr>),
       (''ROI_2'', \<lparr>x_micrometer = 50, y_micrometer = 0, z_micrometer = 0,
          len_x_micrometer = 50, len_y_micrometer = 50, len_z_micrometer = 1,
          x_micrometer_original = 50, y_micrometer_original = 0\<rparr>),
       (''ROI_3'', \<lparr>x_micrometer = 0, y_micrometer = 50, z_micrometer = 0,
          len_x_micrometer = 50, len_y_micrometer = 50, len_z_micrometer = 1,
          x_micrometer_original = 0, y_micrometer_original = 50\<rparr>),
       (''ROI_4'', \<lparr>x_micrometer = 50, y_micrometer = 50, z_micrometer = 0,
          len_x_micrometer = 50, len_y_micrometer = 50, len_z_micrometer = 1,
          x_micrometer_original = 50, y_micrometer_original = 50\<rparr>)]
   \<and> sum_list (map (\<lambda>(n, r). len_x_micrometer r * len_y_micrometer r)
       [(''ROI_1'', \<lparr>x_micrometer = 0, y_micrometer = 0, z_micrometer = 0,
          len_x_micrometer = 50, len_y_micrometer = 50, len_z_micrometer = 1,
          x_micrometer_original = 0, y_micrometer_original = 0\<rparr>),
       (''ROI_2'', \<lparr>x_micrometer = 50, y_micrometer = 0, z_micrometer = 0,
          len_x_micrometer = 50, len_y_micrometer = 50, len_z_micrometer = 1,
          x_micrometer_original = 50, y_micrometer_original = 0\<rparr>),
       (''ROI_3'', \<lparr>x_micrometer = 0, y_micrometer = 50, z_micrometer = 0,
          len_x_micrometer = 50, len_y_micrometer = 50, len_z_micrometer = 1,
          x_micrometer_original = 0, y_micrometer_original = 50\<rparr>),
       (''ROI_4'', \<lparr>x_micrometer = 50, y_micrometer = 50, z_micrometer = 0,
          len_x_micrometer = 50, len_y_micrometer = 50, len_z_micrometer = 1,
          x_micrometer_original = 50, y_micrometer_original = 50\<rparr>)]) = 100 * 100"
  using get_image_grid_ROIs_tiling
    [where gy = 2 and gx = 2 and pixels_Y = 1 and pixels_X = 1 and pixels_Z = 1
       and sz = 1 and sy = 100 and sx = 100, THEN conjunct1]
  by (simp add: py_range_def grid_cell_def grid_ROI_def py_str_def upt_rec)

text \<open>
  On a \<open>(1, 4, 1)\<close> image with a \<open>(3, 1)\<close> grid the nominal cell size along Y is
  \<open>ceil (4 / 3) = 2\<close>: the third cell starts at the end of the extent and is empty.
\<close>

theorem get_image_grid_ROIs_empty_cell:
  "get_image_grid_ROIs (1, 4, 1) (1, 1, 1) (Some (3, 1)) =
     Inr [(''ROI_1'', \<lparr>x_micrometer = 0, y_micrometer = 0, z_micrometer = 0,
          len_x_micrometer = 1, len_y_micrometer = 2, len_z_micrometer = 1,
          x_micrometer_original = 0, y_micrometer_original = 0\<rparr>),
       (''ROI_2'', \<lparr>x_micrometer = 0, y_micrometer = 2, z_micrometer = 0,
          len_x_micrometer = 1, len_y_micrometer = 2, len_z_micrometer = 1,
          x_micrometer_original = 0, y_micrometer_original = 2\<rparr>),
       (''ROI_3'', \<lparr>x_micrometer = 0, y_micrometer = 4, z_micrometer = 0,
          len_x_micrometer = 1, len_y_micrometer = 0, len_z_micrometer = 1,
          x_micrometer_original = 0, y_micrometer_original = 4\<rparr>)]"
  using get_image_grid_ROIs_eq [of 3 1 1 4 1 "(1, 1, 1)"]
  by (simp add: py_range_def grid_cell_def grid_ROI_def py_str_def upt_rec)

section \<open>Properties of the bounding boxes\<close>

lemma unravel_index_3D:
  "unravel_index [nz, ny, nx] k =
     [fst (coords ny nx k), fst (snd (coords ny nx k)), snd (snd (coords ny nx k))]"
  by (simp add: coords_def)

lemma flat_index_split: "flat_index ny nx z y x = z * (ny * nx) + (y * nx + x)"
  by (simp add: flat_index_def algebra_simps)

lemma inner_bound:
  assumes "y < ny" and "x < (nx::nat)"
  shows "y * nx + x < ny * nx"
proof -
  have "y * nx + x < y * nx + nx" using assms(2) by simp
  also have "\<dots> = Suc y * nx" by simp
  also have "\<dots> \<le> ny * nx" using assms(1) by (intro mult_le_mono1) simp
  finally show ?thesis .
qed

lemma flat_index_bound:
  assumes "z < nz" and "y < ny" and "x < nx"
  shows "flat_index ny nx z y x < nz * ny * nx"
proof -
  have "flat_index ny nx z y x < z * (ny * nx) + ny * nx"
    using inner_bound [OF assms(2,3)] by (simp add: flat_index_split)
  also have "\<dots> = Suc z * (ny * nx)" by simp
  also have "\<dots> \<le> nz * (ny * nx)" using assms(1) by (intro mult_le_mono1) simp
  finally show ?thesis by (simp add: mult.assoc)
qed

lemma coords_flat_index:
  assumes "y < ny" and "x < nx"
  shows "coords ny nx (flat_index ny nx z y x) = (z, y, x)"
proof -
  have i: "y * nx + x < ny * nx" using assms by (rule inner_bound)
  have pos: "ny * nx \<noteq> 0" using assms by simp
  have "(z * (ny * nx) + (y * nx + x)) div (ny * nx) = z + (y * nx + x) div (ny * nx)"
    using pos by (rule div_mult_self3)
  then have "flat_index ny nx z y x div (ny * nx) = z"
    using i by (simp only: flat_index_split div_less add_0_right)
  moreover have "(z * (ny * nx) + (y * nx + x)) mod (ny * nx) = (y * nx + x) mod (ny * nx)"
    by (rule mod_mult_self3)
  then have "flat_index ny nx z y x mod (ny * nx) = y * nx + x"
    using i by (simp only: flat_index_split mod_less)
  moreover have "(y * nx + x) div nx = y" and "(y * nx + x) mod nx = x"
    using assms(2) by simp_all
  ultimately show ?thesis by (simp add: coords_def)
qed

lemma flat_index_coords:
  "(case coords ny nx k of (z, y, x) \<Rightarrow> flat_index ny nx z y x) = k"
proof -
  have "(k mod (ny * nx)) div nx * nx + (k mod (ny * nx)) mod nx = k mod (ny * nx)"
    by (rule div_mult_mod_eq)
  then have "k div (ny * nx) * (ny * nx)
             + ((k mod (ny * nx)) div nx * nx + (k mod (ny * nx)) mod nx) = k"
    by (simp only: div_mult_mod_eq)
  then show ?thesis by (simp only: coords_def flat_index_split prod.case)
qed

lemma coords_bound:
  assumes "k < nz * ny * nx"
  shows "fst (coords ny nx k) < nz"
    and "fst (snd (coords ny nx k)) < ny"
    and "snd (snd (coords ny nx k)) < nx"
proof -
  have pos: "0 < ny * nx" using assms by (cases "ny * nx = 0") auto
  then have nx: "0 < nx" and ny: "0 < ny" by simp_all
  have "k < nz * (ny * nx)" using assms by (simp add: mult.assoc)
  then show "fst (coords ny nx k) < nz"
    by (simp add: coords_def less_mult_imp_div_less)
  have "k mod (ny * nx) < ny * nx" using pos by simp
  then show "fst (snd (coords ny nx k)) < ny"
    by (simp add: coords_def less_mult_imp_div_less)
  show "snd (snd (coords ny nx k)) < nx" using nx by (simp add: coords_def)
qed


lemma voxel_flat_index:
  "shape a = [nz, ny, nx] \<Longrightarrow> voxel a z y x = data a ! flat_index ny nx z y x"
  by (simp add: voxel_def flat_index_def)

lemma coords_image:
  assumes sh: "shape a = [nz, ny, nx]" and wf: "wf_array a"
  shows "coords ny nx ` {k. k < length (data a) \<and> data a ! k = l} = label_voxels a l"
proof -
  have len: "length (data a) = nz * ny * nx"
    using wf sh by (simp add: wf_array_def mult.assoc)
  show ?thesis
  proof (intro equalityI subsetI)
    fix c assume "c \<in> coords ny nx ` {k. k < length (data a) \<and> data a ! k = l}"
    then obtain k where k: "k < nz * ny * nx" "data a ! k = l" and c: "c = coords ny nx k"
      using len by auto
    obtain z y x where zyx: "coords ny nx k = (z, y, x)" by (cases "coords ny nx k")
    have "z < nz" "y < ny" "x < nx" using coords_bound [OF k(1)] zyx by simp_all
    moreover have "flat_index ny nx z y x = k" using flat_index_coords [of ny nx k] zyx by simp
    ultimately show "c \<in> label_voxels a l"
      using k(2) by (simp add: c zyx label_voxels_def sh voxel_flat_index [OF sh])
  next
    fix c assume "c \<in> label_voxels a l"
    then obtain z y x where c: "c = (z, y, x)" and r: "z < nz" "y < ny" "x < nx"
      and v: "data a ! flat_index ny nx z y x = l"
      by (auto simp: label_voxels_def sh voxel_flat_index [OF sh])
    have "flat_index ny nx z y x < length (data a)"
      using flat_index_bound [OF r] len by simp
    moreover have "coords ny nx (flat_index ny nx z y x) = c"
      using coords_flat_index [OF r(2,3)] c by simp
    ultimately show "c \<in> coords ny nx ` {k. k < length (data a) \<and> data a ! k = l}"
      using v by (intro image_eqI [where x = "flat_index ny nx z y x"]) simp_all
  qed
qed

lemma np_where_eq_3D:
  assumes sh: "shape a = [nz, ny, nx]"
  shows "np_where_eq a l =
     (let matches = filter (\<lambda>k. data a ! k = l) [0..<length (data a)]
      in [map (\<lambda>k. fst (coords ny nx k)) matches,
          map (\<lambda>k. fst (snd (coords ny nx k))) matches,
          map (\<lambda>k. snd (snd (coords ny nx k))) matches])"
proof -
  have "[0..<ndim a] = [0, 1, 2]"
    by (simp add: ndim_def sh upt_rec)
  then show ?thesis
    by (simp add: np_where_eq_def Let_def sh unravel_index_3D del: unravel_index.simps)
qed

lemma py_max_Max: "vs \<noteq> [] \<Longrightarrow> py_max vs = Inr (Max (set vs))"
  by (cases vs) (simp_all add: Max.set_eq_fold [symmetric])

lemma set_matches_image:
  assumes sh: "shape a = [nz, ny, nx]" and wf: "wf_array a"
  shows "set (map (\<lambda>k. fst (coords ny nx k))
                (filter (\<lambda>k. data a ! k = l) [0..<length (data a)]))
           = (\<lambda>(z, y, x). z) ` label_voxels a l"
    and "set (map (\<lambda>k. fst (snd (coords ny nx k)))
                (filter (\<lambda>k. data a ! k = l) [0..<length (data a)]))
           = (\<lambda>(z, y, x). y) ` label_voxels a l"
    and "set (map (\<lambda>k. snd (snd (coords ny nx k)))
                (filter (\<lambda>k. data a ! k = l) [0..<length (data a)]))
           = (\<lambda>(z, y, x). x) ` label_voxels a l"
proof -
  have m: "set (filter (\<lambda>k. data a ! k = l) [0..<length (data a)])
             = {k. k < length (data a) \<and> data a ! k = l}"
    by auto
  have z: "(\<lambda>k. fst (coords ny nx k)) = (\<lambda>(z, y, x). z) \<circ> coords ny nx"
    and y: "(\<lambda>k. fst (snd (coords ny nx k))) = (\<lambda>(z, y, x). y) \<circ> coords ny nx"
    and x: "(\<lambda>k. snd (snd (coords ny nx k))) = (\<lambda>(z, y, x). x) \<circ> coords ny nx"
    by (auto simp: fun_eq_iff split: prod.splits)
  show "set (map (\<lambda>k. fst (coords ny nx k))
                (filter (\<lambda>k. data a ! k = l) [0..<length (data a)]))
           = (\<lambda>(z, y, x). z) ` label_voxels a l"
    unfolding set_map m z image_comp [symmetric] coords_image [OF sh wf] ..
  show "set (map (\<lambda>k. fst (snd (coords ny nx k)))
                (filter (\<lambda>k. data a ! k = l) [0..<length (data a)]))
           = (\<lambda>(z, y, x). y) ` label_voxels a l"
    unfolding set_map m y image_comp [symmetric] coords_image [OF sh wf] ..
  show "set (map (\<lambda>k. snd (snd (coords ny nx k)))
                (filter (\<lambda>k. data a ! k = l) [0..<length (data a)]))
           = (\<lambda>(z, y, x). x) ` label_voxels a l"
    unfolding set_map m x image_comp [symmetric] coords_image [OF sh wf] ..
qed

lemma bounding_box_eq:
  assumes sh: "shape a = [nz, ny, nx]" and wf: "wf_array a" and l: "l \<in> set (data a)"
  shows "bounding_box a (pz, py, px) (oz, oy, ox) l =
           Inr (roi_row.truncate (spec_bounding_box a (pz, py, px) (oz, oy, ox) l))"
proof -
  let ?matches = "filter (\<lambda>k. data a ! k = l) [0..<length (data a)]"
  let ?zs = "map (\<lambda>k. fst (coords ny nx k)) ?matches"
  let ?ys = "map (\<lambda>k. fst (snd (coords ny nx k))) ?matches"
  let ?xs = "map (\<lambda>k. snd (snd (coords ny nx k))) ?matches"
  from l obtain k where "k < length (data a)" "data a ! k = l"
    by (auto simp: in_set_conv_nth)
  then have "k \<in> set ?matches" by simp
  then have ne: "?matches \<noteq> []" by (metis empty_iff empty_set)
  have w: "np_where_eq a l = [?zs, ?ys, ?xs]"
    using np_where_eq_3D [OF sh, of l] by (simp add: Let_def)
  have mins: "sequence (map py_min [?zs, ?ys, ?xs])
                = Inr [Min (set ?zs), Min (set ?ys), Min (set ?xs)]"
    using ne by (simp add: py_min_Min del: set_map set_filter)
  have maxs: "sequence (map py_max [?zs, ?ys, ?xs])
                = Inr [Max (set ?zs), Max (set ?ys), Max (set ?xs)]"
    using ne by (simp add: py_max_Max del: set_map set_filter)
  show ?thesis
    unfolding bounding_box_def w Let_def mins maxs set_matches_image [OF sh wf]
    by (simp add: times_pxl_sizes_def spec_bounding_box_def roi_row.truncate_def
        algebra_simps)
qed


lemma positive_labels_eq:
  "filter (\<lambda>l. 0 < l) (np_unique a) = sorted_list_of_set {v \<in> set (data a). 0 < v}"
proof -
  have "filter (\<lambda>l. 0 < l) (sort (remdups (data a)))
          = sort (remdups (filter (\<lambda>l. 0 < l) (data a)))"
    by (simp only: filter_sort remdups_filter)
  also have "\<dots> = sorted_list_of_set (set (filter (\<lambda>l. 0 < l) (data a)))"
    by (simp only: sorted_list_of_set_sort_remdups)
  also have "set (filter (\<lambda>l. 0 < l) (data a)) = {v \<in> set (data a). 0 < v}"
    by simp
  finally show ?thesis by (simp only: np_unique_def)
qed

lemma sequence_map_Inr:
  assumes "\<forall>l \<in> set ls. f l = Inr (g l)"
  shows "sequence (map f ls) = Inr (map g ls)"
  using assms by (induction ls) simp_all

lemma array_to_bounding_box_table_eq:
  assumes sh: "shape a = [nz, ny, nx]" and wf: "wf_array a"
  shows "array_to_bounding_box_table a (pz, py, px) (oz, oy, ox) =
           Inr (map (spec_bounding_box a (pz, py, px) (oz, oy, ox))
                  (sorted_list_of_set {v \<in> set (data a). 0 < v}))"
proof -
  let ?labels = "sorted_list_of_set {v \<in> set (data a). 0 < v}"
  let ?spec = "spec_bounding_box a (pz, py, px) (oz, oy, ox)"
  have in_data: "l \<in> set (data a)" if "l \<in> set ?labels" for l
    using that by simp
  have "sequence (map (bounding_box a (pz, py, px) (oz, oy, ox)) ?labels)
          = Inr (map (\<lambda>l. roi_row.truncate (?spec l)) ?labels)"
    by (rule sequence_map_Inr) (simp add: bounding_box_eq [OF sh wf in_data])
  moreover have "map (\<lambda>(elem, l).
                    \<lparr>x_micrometer = x_micrometer elem, y_micrometer = y_micrometer elem,
                     z_micrometer = z_micrometer elem,
                     len_x_micrometer = len_x_micrometer elem,
                     len_y_micrometer = len_y_micrometer elem,
                     len_z_micrometer = len_z_micrometer elem,
                     label = l\<rparr>)
                  (zip (map (\<lambda>l. roi_row.truncate (?spec l)) ls) ls)
                = map ?spec ls" for ls
    by (induction ls)
       (simp_all add: roi_row.truncate_def spec_bounding_box_def Let_def)
  ultimately show ?thesis
    by (simp add: array_to_bounding_box_table_def positive_labels_eq Let_def)
qed

lemma label_voxels_finite_nonempty:
  assumes sh: "shape a = [nz, ny, nx]" and wf: "wf_array a" and l: "l \<in> set (data a)"
  shows "finite (label_voxels a l)" and "label_voxels a l \<noteq> {}"
proof -
  have fin: "finite {k. k < length (data a) \<and> data a ! k = l}" by simp
  from l obtain k where "k < length (data a)" "data a ! k = l"
    by (auto simp: in_set_conv_nth)
  then have ne: "{k. k < length (data a) \<and> data a ! k = l} \<noteq> {}" by blast
  show "finite (label_voxels a l)"
    using fin unfolding coords_image [OF sh wf, symmetric] by (rule finite_imageI)
  show "label_voxels a l \<noteq> {}"
    using ne unfolding coords_image [OF sh wf, symmetric] by simp
qed

lemma extent_at_least_pixel:
  fixes A :: "nat set"
  assumes "finite A" and "A \<noteq> {}" and "0 < (p::real)"
  shows "p \<le> (real (Max A) + 1 - real (Min A)) * p"
proof -
  have "Min A \<in> A" using assms(1,2) by (rule Min_in)
  then have "Min A \<le> Max A" using assms(1) by (intro Max_ge)
  then have "1 \<le> real (Max A) + 1 - real (Min A)" by simp
  then have "1 * p \<le> (real (Max A) + 1 - real (Min A)) * p"
    using assms(3) by (intro mult_right_mono) simp_all
  then show ?thesis by simp
qed

lemma spec_bounding_box_extents:
  assumes sh: "shape a = [nz, ny, nx]" and wf: "wf_array a" and l: "l \<in> set (data a)"
    and "0 < pz" and "0 < py" and "0 < px"
  shows "pz \<le> len_z_micrometer (spec_bounding_box a (pz, py, px) origin l)"
    and "py \<le> len_y_micrometer (spec_bounding_box a (pz, py, px) origin l)"
    and "px \<le> len_x_micrometer (spec_bounding_box a (pz, py, px) origin l)"
proof -
  note fn = label_voxels_finite_nonempty [OF sh wf l]
  have f: "finite (g ` label_voxels a l)" and n: "g ` label_voxels a l \<noteq> {}"
    for g :: "nat \<times> nat \<times> nat \<Rightarrow> nat"
    using fn by simp_all
  show "pz \<le> len_z_micrometer (spec_bounding_box a (pz, py, px) origin l)"
    using extent_at_least_pixel [OF f n \<open>0 < pz\<close>]
    by (simp add: spec_bounding_box_def Let_def split: prod.splits)
  show "py \<le> len_y_micrometer (spec_bounding_box a (pz, py, px) origin l)"
    using extent_at_least_pixel [OF f n \<open>0 < py\<close>]
    by (simp add: spec_bounding_box_def Let_def split: prod.splits)
  show "px \<le> len_x_micrometer (spec_bounding_box a (pz, py, px) origin l)"
    using extent_at_least_pixel [OF f n \<open>0 < px\<close>]
    by (simp add: spec_bounding_box_def Let_def split: prod.splits)
qed

text \<open>
  Claim C4. For a well-formed three-dimensional mask array,
  \<open>array_to_bounding_box_table\<close> returns one row per distinct value greater than zero
  of the array, in ascending order of the value; the row of a value has the value as
  its label, the least coordinate of its voxels on each axis plus the origin shift,
  times the pixel size, as its position, and the greatest coordinate plus one minus the
  least, times the pixel size, as its extent, which therefore does not depend on the
  origin shift; an array without a positive value gives no row and no error.
\<close>

theorem array_to_bounding_box_table_correct:
  assumes "shape a = [nz, ny, nx]" and "wf_array a"
  shows "array_to_bounding_box_table a (pz, py, px) (oz, oy, ox) =
           Inr (map (spec_bounding_box a (pz, py, px) (oz, oy, ox))
                  (sorted_list_of_set {v \<in> set (data a). 0 < v}))
         \<and> (\<forall>l. len_x_micrometer (spec_bounding_box a (pz, py, px) (oz, oy, ox) l)
                  = len_x_micrometer (spec_bounding_box a (pz, py, px) (0, 0, 0) l)
              \<and> len_y_micrometer (spec_bounding_box a (pz, py, px) (oz, oy, ox) l)
                  = len_y_micrometer (spec_bounding_box a (pz, py, px) (0, 0, 0) l)
              \<and> len_z_micrometer (spec_bounding_box a (pz, py, px) (oz, oy, ox) l)
                  = len_z_micrometer (spec_bounding_box a (pz, py, px) (0, 0, 0) l)
              \<and> label (spec_bounding_box a (pz, py, px) (oz, oy, ox) l) = l)
         \<and> ((\<forall>v \<in> set (data a). v \<le> 0) \<longrightarrow>
              array_to_bounding_box_table a (pz, py, px) (oz, oy, ox) = Inr [])"
proof -
  have eq: "array_to_bounding_box_table a (pz, py, px) (oz, oy, ox) =
           Inr (map (spec_bounding_box a (pz, py, px) (oz, oy, ox))
                  (sorted_list_of_set {v \<in> set (data a). 0 < v}))"
    using assms by (rule array_to_bounding_box_table_eq)
  have "{v \<in> set (data a). 0 < v} = {}" if "\<forall>v \<in> set (data a). v \<le> 0"
    using that by fastforce
  then have "array_to_bounding_box_table a (pz, py, px) (oz, oy, ox) = Inr []"
    if "\<forall>v \<in> set (data a). v \<le> 0"
    using that eq by simp
  moreover have "len_x_micrometer (spec_bounding_box a (pz, py, px) (oz, oy, ox) l)
                  = len_x_micrometer (spec_bounding_box a (pz, py, px) (0, 0, 0) l)
              \<and> len_y_micrometer (spec_bounding_box a (pz, py, px) (oz, oy, ox) l)
                  = len_y_micrometer (spec_bounding_box a (pz, py, px) (0, 0, 0) l)
              \<and> len_z_micrometer (spec_bounding_box a (pz, py, px) (oz, oy, ox) l)
                  = len_z_micrometer (spec_bounding_box a (pz, py, px) (0, 0, 0) l)
              \<and> label (spec_bounding_box a (pz, py, px) (oz, oy, ox) l) = l" for l
    by (simp add: spec_bounding_box_def Let_def)
  ultimately show ?thesis using eq by blast
qed

theorem array_to_bounding_box_table_correct_witness:
  "shape \<lparr>shape = [1, 2, 3], data = [0, 2, 2, 1, 2, 0 :: int]\<rparr> = [1, 2, 3]
   \<and> wf_array \<lparr>shape = [1, 2, 3], data = [0, 2, 2, 1, 2, 0 :: int]\<rparr>
   \<and> array_to_bounding_box_table \<lparr>shape = [1, 2, 3], data = [0, 2, 2, 1, 2, 0]\<rparr>
        (1, 1 / 2, 1 / 4) (0, 0, 0) =
       Inr (map (spec_bounding_box \<lparr>shape = [1, 2, 3], data = [0, 2, 2, 1, 2, 0]\<rparr>
                   (1, 1 / 2, 1 / 4) (0, 0, 0))
              (sorted_list_of_set
                 {v \<in> set (data \<lparr>shape = [1, 2, 3], data = [0, 2, 2, 1, 2, 0 :: int]\<rparr>).
                  0 < v}))"
  using array_to_bounding_box_table_correct
    [of "\<lparr>shape = [1, 2, 3], data = [0, 2, 2, 1, 2, 0]\<rparr>" 1 2 3 1 "1 / 2" "1 / 4" 0 0 0]
  by (simp add: wf_array_def)

lemma array_to_bounding_box_table_example:
  "array_to_bounding_box_table \<lparr>shape = [1, 2, 3], data = [0, 2, 2, 1, 2, 0]\<rparr>
        (1, 1 / 2, 1 / 4) (0, 0, 0) =
     Inr [\<lparr>x_micrometer = 0, y_micrometer = 1 / 2, z_micrometer = 0,
           len_x_micrometer = 1 / 4, len_y_micrometer = 1 / 2, len_z_micrometer = 1,
           label = 1\<rparr>,
          \<lparr>x_micrometer = 1 / 4, y_micrometer = 0, z_micrometer = 0,
           len_x_micrometer = 1 / 2, len_y_micrometer = 1, len_z_micrometer = 1,
           label = 2\<rparr>]"
  by (simp add: array_to_bounding_box_table_def np_unique_def bounding_box_def
      np_where_eq_def ndim_def times_pxl_sizes_def upt_rec Let_def)

text \<open>
  Claim C10. For a well-formed three-dimensional mask array and positive pixel sizes,
  every row of the table of \<open>array_to_bounding_box_table\<close> has, on each axis, an extent
  of at least one pixel size, hence a positive one.
\<close>

theorem array_to_bounding_box_table_positive_extents:
  assumes "shape a = [nz, ny, nx]" and "wf_array a"
    and "0 < pz" and "0 < py" and "0 < px"
  shows "\<exists>df. array_to_bounding_box_table a (pz, py, px) (oz, oy, ox) = Inr df \<and>
           (\<forall>r \<in> set df.
              pz \<le> len_z_micrometer r \<and> py \<le> len_y_micrometer r \<and>
              px \<le> len_x_micrometer r \<and>
              0 < len_z_micrometer r \<and> 0 < len_y_micrometer r \<and> 0 < len_x_micrometer r)"
proof -
  let ?spec = "spec_bounding_box a (pz, py, px) (oz, oy, ox)"
  let ?df = "map ?spec (sorted_list_of_set {v \<in> set (data a). 0 < v})"
  have eq: "array_to_bounding_box_table a (pz, py, px) (oz, oy, ox) = Inr ?df"
    using assms(1,2) by (rule array_to_bounding_box_table_eq)
  have "pz \<le> len_z_micrometer r \<and> py \<le> len_y_micrometer r \<and> px \<le> len_x_micrometer r \<and>
        0 < len_z_micrometer r \<and> 0 < len_y_micrometer r \<and> 0 < len_x_micrometer r"
    if "r \<in> set ?df" for r
  proof -
    from that obtain l where l: "l \<in> set (data a)" and r: "r = ?spec l" by auto
    have "pz \<le> len_z_micrometer r" "py \<le> len_y_micrometer r" "px \<le> len_x_micrometer r"
      unfolding r by (rule spec_bounding_box_extents [OF assms(1,2) l assms(3-5)])+
    with assms(3-5) show ?thesis by linarith
  qed
  with eq show ?thesis by blast
qed

theorem array_to_bounding_box_table_positive_extents_witness:
  "\<exists>df. array_to_bounding_box_table \<lparr>shape = [1, 2, 3], data = [0, 2, 2, 1, 2, 0]\<rparr>
          (1, 1 / 2, 1 / 4) (0, 0, 0) = Inr df \<and>
        (\<forall>r \<in> set df. 0 < len_z_micrometer r \<and> 0 < len_y_micrometer r
            \<and> 0 < len_x_micrometer r)"
  using array_to_bounding_box_table_positive_extents
    [of "\<lparr>shape = [1, 2, 3], data = [0, 2, 2, 1, 2, 0]\<rparr>" 1 2 3 1 "1 / 2" "1 / 4" 0 0 0]
  by (fastforce simp: wf_array_def)

section \<open>Properties of the masked regions\<close>
















lemma setitem_mask_scalar_channels:
  assumes "shape img = [c, nz, ny, nx]" and "c \<noteq> 1" and "shape bg = tl (shape img)"
  shows "setitem_mask_scalar img (expand_dims bg) v = Inl IndexError"
  using assms by (simp add: setitem_mask_scalar_def expand_dims_def)

lemma multichannel_mask_fails:
  assumes a: "a < length h" and s: "shape (h ! a) = [c, nz, ny, nx]" and c: "c \<noteq> 1"
  shows "\<exists>e. preprocess_cellpose_input eq_None_truth from_zarr h a True
                region current_label_path primary_label_path ROI_table_obs index_ROI
              = Inl e"
proof -
  have bg: "setitem_mask_scalar (h ! a) (expand_dims (np_not_equal p l)) 0 = Inl IndexError"
    if "shape p = tl (shape (h ! a))" for p :: "int ndarray" and l
    using s c that by (intro setitem_mask_scalar_channels) (simp_all add: np_not_equal_def)
  show ?thesis
    using a s bg
    by (auto simp add: preprocess_cellpose_input_def heap_get_def ndim_def Let_def
        split: sum.splits option.splits bool.splits)
qed

lemma preprocess_cellpose_input_masks:
  assumes a: "a < length h" and s: "shape (h ! a) = 1 # shape (from_zarr plp region)"
    and n: "length (shape (from_zarr plp region)) = 3"
    and e: "eq_None_truth obs = Inr False"
    and l: "map_of obs ''label'' = Some col" and i: "idx < length col"
    and f: "0 < count_equal (from_zarr plp region) (col ! idx)"
  shows "preprocess_cellpose_input eq_None_truth from_zarr h a True
           (Some region) (Some clp) (Some plp) (Some obs) (Some idx)
         = Inr (h[a := (h ! a)\<lparr>data := map (\<lambda>(b, e). if b then 0 else e)
                   (zip (map (\<lambda>e. e \<noteq> col ! idx) (data (from_zarr plp region)))
                        (data (h ! a)))\<rparr>],
                a, Some (np_not_equal (from_zarr plp region) (col ! idx)),
                Some (from_zarr clp region))"
  using assms
  by (simp add: preprocess_cellpose_input_def heap_get_def ndim_def Let_def None_in_def
      py_item_def setitem_mask_scalar_def expand_dims_def np_not_equal_def)

lemma preprocess_cellpose_input_shape_mismatch:
  assumes "a < length h" and "shape (from_zarr plp region) \<noteq> tl (shape (h ! a))"
  shows "\<exists>e. preprocess_cellpose_input eq_None_truth from_zarr h a True
                (Some region) clp (Some plp) obs idx = Inl e"
  using assms
  by (auto simp add: preprocess_cellpose_input_def heap_get_def ndim_def Let_def
        split: sum.splits option.splits bool.splits)

lemma preprocess_cellpose_input_label_not_found:
  assumes "a < length h" and "map_of obs ''label'' = Some col" and "idx < length col"
    and "count_equal (from_zarr plp region) (col ! idx) = 0"
  shows "\<exists>e. preprocess_cellpose_input eq_None_truth from_zarr h a True
                (Some region) clp (Some plp) (Some obs) (Some idx) = Inl e"
  using assms
  by (auto simp add: preprocess_cellpose_input_def heap_get_def ndim_def Let_def py_item_def
        split: sum.splits option.splits bool.splits)


text \<open>
  Claim C7. The three failures hold (\<open>preprocess_cellpose_input_not_4D\<close>,
  \<open>preprocess_cellpose_input_shape_mismatch\<close>,
  \<open>preprocess_cellpose_input_label_not_found\<close>), and on an image with one channel the
  call succeeds with the masked image, the background mask and the current labels
  (\<open>preprocess_cellpose_input_masks\<close>). On an image with any other number of channels the
  call fails although the three conditions hold: the background mask gets a leading
  axis of length one, and the boolean index is not broadcast over the channels.
\<close>

theorem preprocess_cellpose_input_channels:
  "a < length h \<and> shape (h ! a) = [c, nz, ny, nx] \<and> c \<noteq> 1 \<longrightarrow>
     (\<exists>e. preprocess_cellpose_input eq_None_truth from_zarr h a True
            region current_label_path primary_label_path ROI_table_obs index_ROI
          = Inl e)"
  using multichannel_mask_fails by blast

theorem preprocess_cellpose_input_channels_witness:
  "(0 < length [\<lparr>shape = [2, 1, 1, 2], data = [5, 6, 7, 8::int]\<rparr>]
      \<and> shape ([\<lparr>shape = [2, 1, 1, 2], data = [5, 6, 7, 8::int]\<rparr>] ! 0) = [2, 1, 1, 2]
      \<and> (2::nat) \<noteq> 1)
   \<and> (\<exists>e. preprocess_cellpose_input (\<lambda>obs. Inr False)
            (\<lambda>path (r::unit). if path = ''primary'' then \<lparr>shape = [1, 1, 2], data = [1, 0::int]\<rparr> else \<lparr>shape = [1, 1, 2], data = [7, 7]\<rparr>)
            [\<lparr>shape = [2, 1, 1, 2], data = [5, 6, 7, 8::int]\<rparr>] 0 True
            (Some ()) (Some ''current'') (Some ''primary'') (Some [(''label'', [1])]) (Some 0)
          = Inl e)"
  using preprocess_cellpose_input_channels
    [of 0 "[\<lparr>shape = [2, 1, 1, 2], data = [5, 6, 7, 8::int]\<rparr>]" 2 1 1 2 "(\<lambda>obs. Inr False)"
        "(\<lambda>path (r::unit). if path = ''primary'' then \<lparr>shape = [1, 1, 2], data = [1, 0::int]\<rparr> else \<lparr>shape = [1, 1, 2], data = [7, 7]\<rparr>)"
        "Some ()" "Some ''current''" "Some ''primary''" "Some [(''label'', [1])]" "Some 0"]
  by simp

lemma preprocess_cellpose_input_examples:
  "preprocess_cellpose_input (\<lambda>obs. Inr False)
     (\<lambda>path (r::unit). if path = ''primary'' then \<lparr>shape = [1, 1, 2], data = [1, 0::int]\<rparr> else \<lparr>shape = [1, 1, 2], data = [7, 7]\<rparr>)
     [\<lparr>shape = [2, 1, 1, 2], data = [5, 6, 7, 8::int]\<rparr>] 0 True
     (Some ()) (Some ''current'') (Some ''primary'') (Some [(''label'', [1])]) (Some 0)
   = Inl IndexError"
  "preprocess_cellpose_input (\<lambda>obs. Inr False)
     (\<lambda>path (r::unit). if path = ''primary'' then \<lparr>shape = [1, 1, 2], data = [1, 0::int]\<rparr> else \<lparr>shape = [1, 1, 2], data = [7, 7]\<rparr>)
     [\<lparr>shape = [1, 1, 1, 2], data = [5, 6::int]\<rparr>] 0 True
     (Some ()) (Some ''current'') (Some ''primary'') (Some [(''label'', [1])]) (Some 0)
   = Inr ([\<lparr>shape = [1, 1, 1, 2], data = [5, 0::int]\<rparr>], 0,
          Some \<lparr>shape = [1, 1, 2], data = [False, True]\<rparr>,
          Some \<lparr>shape = [1, 1, 2], data = [7, 7]\<rparr>)"
  by (simp_all add: preprocess_cellpose_input_def heap_get_def ndim_def None_in_def
        py_item_def count_equal_def np_not_equal_def expand_dims_def
        setitem_mask_scalar_def)

section \<open>Arguments changed in place\<close>









end
